theory Spec2Isabelle
  imports Complex_Main "HOL-Library.Word" "HOL-Library.Signed_Division"
begin

unbundle bit_operations_syntax

section \<open>Scene configuration\<close>

text \<open>
  A JavaScript number is a real number here; infinities and NaN are not represented.
  The sums, differences and quotients that the renderer computes are rounded, so they are
  not those of the reals: they are taken from the environment below. A three-element
  array is a triple and a 4x4 matrix is the list of its sixteen entries in column-major
  order, as the WebGL calls receive it.
\<close>

type_synonym vec3 = "real \<times> real \<times> real"
type_synonym mat4 = "real list"

text \<open>One entry of \<open>scene._sectionPlanesState.sectionPlanes\<close>; the renderer reads
  \<open>pos\<close>, \<open>dir\<close> and \<open>dist\<close> (here \<open>dist_sp\<close>).\<close>

record sectionPlane =
  pos :: vec3
  dir :: vec3
  dist_sp :: real

text \<open>What is read of \<open>scene.camera\<close>; \<open>project_matrix\<close> and \<open>project_far\<close> stand for
  \<open>camera.project.matrix\<close> and \<open>camera.project.far\<close>.\<close>

record camera =
  viewMatrix :: mat4
  projMatrix :: mat4
  eye :: vec3
  project_matrix :: mat4
  project_far :: real

text \<open>
  The fields of \<open>scene\<close> that the two source files read. \<open>sectionPlanes\<close> stands for
  \<open>scene._sectionPlanesState.sectionPlanes\<close> and \<open>logarithmicDepthBufferSupported\<close> for
  \<open>scene.viewer.logarithmicDepthBufferSupported\<close>.
\<close>

record scene =
  sectionPlanes :: "sectionPlane list"
  logarithmicDepthBufferEnabled :: bool
  logarithmicDepthBufferSupported :: bool
  entityOffsetsEnabled :: bool
  camera :: camera

section \<open>Shader source builder\<close>

text \<open>JavaScript's \<open>"" + i\<close> for a loop counter: the decimal digits of \<open>i\<close>.\<close>

definition digit_char :: "nat \<Rightarrow> char" where
  "digit_char d = ''0123456789'' ! d"

function string_of_nat :: "nat \<Rightarrow> string" where
  "string_of_nat n =
     (if n < 10 then [digit_char n] else string_of_nat (n div 10) @ [digit_char (n mod 10)])"
  by pat_completeness auto
termination
  by (relation "measure id") auto

declare string_of_nat.simps [simp del]

text \<open>
  \<open>_buildVertexShader\<close>: every \<open>src.push\<close> appends one line; the three conditions are
  \<open>scene.entityOffsetsEnabled\<close>, \<open>scene.logarithmicDepthBufferEnabled\<close> and
  \<open>clipping\<close> (at least one section plane).
\<close>

definition buildVertexShader :: "scene \<Rightarrow> string list" where
  "buildVertexShader scene =
    (let clipping = (length (sectionPlanes scene) > 0) in
     [''#version 300 es'',
      ''// Triangles dataTexture draw vertex shader'',
      ''#ifdef GL_FRAGMENT_PRECISION_HIGH'',
      ''precision highp float;'',
      ''precision highp int;'',
      ''precision highp usampler2D;'',
      ''precision highp isampler2D;'',
      ''precision highp sampler2D;'',
      ''#else'',
      ''precision mediump float;'',
      ''precision mediump int;'',
      ''precision mediump usampler2D;'',
      ''precision mediump isampler2D;'',
      ''precision mediump sampler2D;'',
      ''#endif'',
      ''uniform int renderPass;''] @
     (if entityOffsetsEnabled scene then [''in vec3 offset;''] else []) @
     [''uniform mat4 sceneModelMatrix;'',
      ''uniform mat4 viewMatrix;'',
      ''uniform mat4 projMatrix;'',
      ''uniform highp sampler2D uObjectPerObjectPositionsDecodeMatrix;'',
      ''uniform highp sampler2D uTexturePerObjectMatrix;'',
      ''uniform lowp usampler2D uObjectPerObjectColorsAndFlags;'',
      ''uniform mediump usampler2D uTexturePerVertexIdCoordinates;'',
      ''uniform highp usampler2D uTexturePerPolygonIdIndices;'',
      ''uniform mediump usampler2D uTexturePerPolygonIdPortionIds;'',
      ''uniform vec3 uCameraEyeRtc;'',
      ''vec3 positions[3];''] @
     (if logarithmicDepthBufferEnabled scene then
       [''uniform float logDepthBufFC;'',
        ''out float vFragDepth;'',
        ''out float isPerspective;''] else []) @
     [''bool isPerspectiveMatrix(mat4 m) {'',
      ''    return (m[2][3] == - 1.0);'',
      ''}'',
      ''out highp vec2 vHighPrecisionZW;''] @
     (if clipping then [''out vec4 vWorldPosition;'',
        ''flat out uint vFlags2;''] else []) @
     [''void main(void) {'',
      ''int polygonIndex = gl_VertexID / 3;'',
      ''int h_packed_object_id_index = (polygonIndex >> 3) & 4095;'',
      ''int v_packed_object_id_index = (polygonIndex >> 3) >> 12;'',
      ''int objectIndex = int(texelFetch(uTexturePerPolygonIdPortionIds, ivec2(h_packed_object_id_index, v_packed_object_id_index), 0).r);'',
      ''ivec2 objectIndexCoords = ivec2(objectIndex % 512, objectIndex / 512);'',
      ''uvec4 flags = texelFetch (uObjectPerObjectColorsAndFlags, ivec2(objectIndexCoords.x*8+2, objectIndexCoords.y), 0);'',
      ''uvec4 flags2 = texelFetch (uObjectPerObjectColorsAndFlags, ivec2(objectIndexCoords.x*8+3, objectIndexCoords.y), 0);'',
      ''if (int(flags.x) != renderPass) {'',
      ''   gl_Position = vec4(3.0, 3.0, 3.0, 1.0);'',
      ''   return;'',
      ''} else {'',
      ''ivec4 packedVertexBase = ivec4(texelFetch (uObjectPerObjectColorsAndFlags, ivec2(objectIndexCoords.x*8+4, objectIndexCoords.y), 0));'',
      ''ivec4 packedIndexBaseOffset = ivec4(texelFetch (uObjectPerObjectColorsAndFlags, ivec2(objectIndexCoords.x*8+5, objectIndexCoords.y), 0));'',
      ''int indexBaseOffset = (packedIndexBaseOffset.r << 24) + (packedIndexBaseOffset.g << 16) + (packedIndexBaseOffset.b << 8) + packedIndexBaseOffset.a;'',
      ''int h_index = (polygonIndex - indexBaseOffset) & 4095;'',
      ''int v_index = (polygonIndex - indexBaseOffset) >> 12;'',
      ''ivec3 vertexIndices = ivec3(texelFetch(uTexturePerPolygonIdIndices, ivec2(h_index, v_index), 0));'',
      ''ivec3 uniqueVertexIndexes = vertexIndices + (packedVertexBase.r << 24) + (packedVertexBase.g << 16) + (packedVertexBase.b << 8) + packedVertexBase.a;'',
      ''ivec3 indexPositionH = uniqueVertexIndexes & 4095;'',
      ''ivec3 indexPositionV = uniqueVertexIndexes >> 12;'',
      ''mat4 objectInstanceMatrix = mat4 (texelFetch (uTexturePerObjectMatrix, ivec2(objectIndexCoords.x*4+0, objectIndexCoords.y), 0), texelFetch (uTexturePerObjectMatrix, ivec2(objectIndexCoords.x*4+1, objectIndexCoords.y), 0), texelFetch (uTexturePerObjectMatrix, ivec2(objectIndexCoords.x*4+2, objectIndexCoords.y), 0), texelFetch (uTexturePerObjectMatrix, ivec2(objectIndexCoords.x*4+3, objectIndexCoords.y), 0));'',
      ''mat4 objectDecodeAndInstanceMatrix = objectInstanceMatrix * mat4 (texelFetch (uObjectPerObjectPositionsDecodeMatrix, ivec2(objectIndexCoords.x*4+0, objectIndexCoords.y), 0), texelFetch (uObjectPerObjectPositionsDecodeMatrix, ivec2(objectIndexCoords.x*4+1, objectIndexCoords.y), 0), texelFetch (uObjectPerObjectPositionsDecodeMatrix, ivec2(objectIndexCoords.x*4+2, objectIndexCoords.y), 0), texelFetch (uObjectPerObjectPositionsDecodeMatrix, ivec2(objectIndexCoords.x*4+3, objectIndexCoords.y), 0));'',
      ''uint solid = texelFetch (uObjectPerObjectColorsAndFlags, ivec2(objectIndexCoords.x*8+7, objectIndexCoords.y), 0).r;'',
      ''positions[0] = vec3(texelFetch(uTexturePerVertexIdCoordinates, ivec2(indexPositionH.r, indexPositionV.r), 0));'',
      ''positions[1] = vec3(texelFetch(uTexturePerVertexIdCoordinates, ivec2(indexPositionH.g, indexPositionV.g), 0));'',
      ''positions[2] = vec3(texelFetch(uTexturePerVertexIdCoordinates, ivec2(indexPositionH.b, indexPositionV.b), 0));'',
      ''uvec4 color = texelFetch (uObjectPerObjectColorsAndFlags, ivec2(objectIndexCoords.x*8+0, objectIndexCoords.y), 0);'',
      ''if (color.a == 0u) {'',
      ''   gl_Position = vec4(3.0, 3.0, 3.0, 1.0);'',
      ''   return;'',
      ''};'',
      ''vec3 normal = normalize(cross(positions[2] - positions[0], positions[1] - positions[0]));'',
      ''vec3 position;'',
      ''position = positions[gl_VertexID % 3];'',
      ''vec3 viewNormal = -normalize((transpose(inverse(viewMatrix*objectDecodeAndInstanceMatrix)) * vec4(normal,1)).xyz);'',
      ''if (solid != 1u) {'',
      ''if (isPerspectiveMatrix(projMatrix)) {'',
      ''vec3 uCameraEyeRtcInQuantizedSpace = (inverse(sceneModelMatrix * objectDecodeAndInstanceMatrix) * vec4(uCameraEyeRtc, 1)).xyz;'',
      ''if (dot(position.xyz - uCameraEyeRtcInQuantizedSpace, normal) < 0.0) {'',
      ''position = positions[2 - (gl_VertexID % 3)];'',
      ''viewNormal = -viewNormal;'',
      ''}'',
      ''} else {'',
      ''if (viewNormal.z < 0.0) {'',
      ''position = positions[2 - (gl_VertexID % 3)];'',
      ''viewNormal = -viewNormal;'',
      ''}'',
      ''}'',
      ''}'',
      ''vec4 worldPosition = sceneModelMatrix * (objectDecodeAndInstanceMatrix * vec4(position, 1.0)); '',
      ''vec4 viewPosition = viewMatrix * worldPosition; '',
      ''vec4 clipPos = projMatrix * viewPosition;''] @
     (if logarithmicDepthBufferEnabled scene then
       [''vFragDepth = 1.0 + clipPos.w;'',
        ''isPerspective = float (isPerspectiveMatrix(projMatrix));''] else []) @
     (if clipping then [''vWorldPosition = worldPosition;'',
        ''vFlags2 = flags2.r;''] else []) @
     [''gl_Position = clipPos;'',
      ''vHighPrecisionZW = gl_Position.zw;'',
      ''}'',
      ''}''])"

text \<open>The three uniform declarations that the first loop of \<open>_buildFragmentShader\<close>
  pushes for plane \<open>i\<close>, and the three lines of the second loop.\<close>

definition sectionPlaneUniformLines :: "nat \<Rightarrow> string list" where
  "sectionPlaneUniformLines i =
    [''uniform bool sectionPlaneActive'' @ string_of_nat i @ '';'',
     ''uniform vec3 sectionPlanePos'' @ string_of_nat i @ '';'',
     ''uniform vec3 sectionPlaneDir'' @ string_of_nat i @ '';'']"

definition sectionPlaneClipLines :: "nat \<Rightarrow> string list" where
  "sectionPlaneClipLines i =
    [''if (sectionPlaneActive'' @ string_of_nat i @ '') {'',
     ''   dist += clamp(dot(-sectionPlaneDir'' @ string_of_nat i @ ''.xyz, vWorldPosition.xyz - sectionPlanePos'' @ string_of_nat i @ ''.xyz), 0.0, 1000.0);'',
     ''}'']"

text \<open>\<open>_buildFragmentShader\<close>; the \<open>for\<close> loops run over the plane indices
  \<open>0 .. len - 1\<close> in order.\<close>

definition buildFragmentShader :: "scene \<Rightarrow> string list" where
  "buildFragmentShader scene =
    (let len = length (sectionPlanes scene); clipping = (len > 0) in
     [''#version 300 es'',
      ''// Triangles dataTexture draw fragment shader'',
      ''#ifdef GL_FRAGMENT_PRECISION_HIGH'',
      ''precision highp float;'',
      ''precision highp int;'',
      ''#else'',
      ''precision mediump float;'',
      ''precision mediump int;'',
      ''#endif'',
      ''in highp vec2 vHighPrecisionZW;'',
      ''out vec4 outColor;''] @
     (if logarithmicDepthBufferEnabled scene then
       [''in float isPerspective;'',
        ''uniform float logDepthBufFC;'',
        ''in float vFragDepth;''] else []) @
     (if clipping then
       [''in vec4 vWorldPosition;'',
        ''flat in uint vFlags2;''] @
       concat (map sectionPlaneUniformLines [0..<len]) else []) @
     [''void main(void) {''] @
     (if clipping then
       [''  bool clippable = vFlags2 > 0u;'',
        ''  if (clippable) {'',
        ''  float dist = 0.0;''] @
       concat (map sectionPlaneClipLines [0..<len]) @
       [''  if (dist > 0.0) { '',
        ''      discard;'',
        ''  }'',
        ''}''] else []) @
     (if logarithmicDepthBufferEnabled scene then
       [''    gl_FragDepth = isPerspective == 0.0 ? gl_FragCoord.z : log2( vFragDepth ) * logDepthBufFC * 0.5;''] else []) @
     [''float fragCoordZ = 0.5 * vHighPrecisionZW[0] / vHighPrecisionZW[1] + 0.5;'',
      ''    outColor = vec4(vec3(1.0 - fragCoordZ), 1.0); '',
      ''}''])"

text \<open>\<open>_buildShader\<close>.\<close>

record shaderSource =
  vertex :: "string list"
  fragment :: "string list"

definition buildShader :: "scene \<Rightarrow> shaderSource" where
  "buildShader scene =
     \<lparr>vertex = buildVertexShader scene, fragment = buildFragmentShader scene\<rparr>"


section \<open>The occlusion shader source\<close>

text \<open>
  \<open>InstancingOcclusionShaderSource\<close>, the other source file: \<open>buildVertex\<close> and
  \<open>buildFragment\<close>. Here the logarithmic-depth lines depend on
  \<open>scene.viewer.logarithmicDepthBufferSupported\<close> as well.
\<close>

definition buildVertex :: "scene \<Rightarrow> string list" where
  "buildVertex scene =
    (let clipping = (length (sectionPlanes scene) > 0) in
     [''// Instancing occlusion vertex shader''] @
     (if logarithmicDepthBufferEnabled scene \<and> logarithmicDepthBufferSupported scene
      then [''#extension GL_EXT_frag_depth : enable''] else []) @
     [''attribute vec3 position;''] @
     (if entityOffsetsEnabled scene then [''attribute vec3 offset;''] else []) @
     [''attribute vec4 color;'',
      ''attribute vec4 flags;'',
      ''attribute vec4 flags2;'',
      ''attribute vec4 modelMatrixCol0;'',
      ''attribute vec4 modelMatrixCol1;'',
      ''attribute vec4 modelMatrixCol2;'',
      ''uniform mat4 worldMatrix;'',
      ''uniform mat4 viewMatrix;'',
      ''uniform mat4 projMatrix;'',
      ''uniform mat4 positionsDecodeMatrix;''] @
     (if logarithmicDepthBufferEnabled scene \<and> logarithmicDepthBufferSupported scene
      then [''uniform float logDepthBufFC;'',
            ''varying float vFragDepth;''] else []) @
     (if clipping then [''varying vec4 vWorldPosition;'',
        ''varying vec4 vFlags2;''] else []) @
     [''void main(void) {'',
      ''bool visible   = (float(flags.x) > 0.0);'',
      ''bool transparent  = ((float(color.a) / 255.0) < 1.0);'',
      ''bool culled  = (float(flags2.w) > 0.0);'',
      ''if (culled || !visible || transparent) {'',
      ''   gl_Position = vec4(0.0, 0.0, 0.0, 0.0);'',
      ''} else {'',
      ''  vec4 worldPosition = positionsDecodeMatrix * vec4(position, 1.0); '',
      ''  worldPosition = worldMatrix * vec4(dot(worldPosition, modelMatrixCol0), dot(worldPosition, modelMatrixCol1), dot(worldPosition, modelMatrixCol2), 1.0);''] @
     (if entityOffsetsEnabled scene then [''      worldPosition.xyz = worldPosition.xyz + offset;''] else []) @
     [''  vec4 viewPosition  = viewMatrix * worldPosition; ''] @
     (if clipping then [''  vWorldPosition = worldPosition;''] else []) @
     [''vec4 clipPos = projMatrix * viewPosition;''] @
     (if logarithmicDepthBufferEnabled scene \<and> logarithmicDepthBufferSupported scene
      then [''vFragDepth = 1.0 + clipPos.w;''] else []) @
     [''gl_Position = clipPos;'',
      ''}'',
      ''}''])"

definition occlusionPlaneUniformLines :: "nat \<Rightarrow> string list" where
  "occlusionPlaneUniformLines i =
    [''uniform bool sectionPlaneActive'' @ string_of_nat i @ '';'',
     ''uniform vec3 sectionPlanePos'' @ string_of_nat i @ '';'',
     ''uniform vec3 sectionPlaneDir'' @ string_of_nat i @ '';'']"

definition occlusionPlaneClipLines :: "nat \<Rightarrow> string list" where
  "occlusionPlaneClipLines i =
    [''if (sectionPlaneActive'' @ string_of_nat i @ '') {'',
     ''   dist += clamp(dot(-sectionPlaneDir'' @ string_of_nat i @ ''.xyz, vWorldPosition.xyz - sectionPlanePos'' @ string_of_nat i @ ''.xyz), 0.0, 1000.0);'',
     ''}'']"

definition buildFragment :: "scene \<Rightarrow> string list" where
  "buildFragment scene =
    (let len = length (sectionPlanes scene); clipping = (len > 0) in
     [''// Instancing occlusion fragment shader''] @
     (if logarithmicDepthBufferEnabled scene \<and> logarithmicDepthBufferSupported scene
      then [''#extension GL_EXT_frag_depth : enable''] else []) @
     [''#ifdef GL_FRAGMENT_PRECISION_HIGH'',
      ''precision highp float;'',
      ''precision highp int;'',
      ''#else'',
      ''precision mediump float;'',
      ''precision mediump int;'',
      ''#endif''] @
     (if logarithmicDepthBufferEnabled scene \<and> logarithmicDepthBufferSupported scene
      then [''uniform float logDepthBufFC;'',
            ''varying float vFragDepth;''] else []) @
     (if clipping then
       [''varying vec4 vWorldPosition;'',
        ''varying vec4 vFlags2;''] @
       concat (map occlusionPlaneUniformLines [0..<len]) else []) @
     [''void main(void) {''] @
     (if clipping then
       [''  bool clippable = (float(vFlags2.x) > 0.0);'',
        ''  if (clippable) {'',
        ''  float dist = 0.0;''] @
       concat (map occlusionPlaneClipLines [0..<len]) @
       [''if (dist > 0.0) { discard; }'',
        ''}''] else []) @
     [''   gl_FragColor = vec4(0.0, 0.0, 1.0, 1.0); ''] @
     (if logarithmicDepthBufferEnabled scene \<and> logarithmicDepthBufferSupported scene
      then [''gl_FragDepthEXT = log2( vFragDepth ) * logDepthBufFC * 0.5;''] else []) @
     [''}''])"

section \<open>Program cache and layer renderer\<close>

text \<open>
  \<open>Program\<close> (webgl/Program.js) is not among the sources. The renderer reads three
  things of a program object: its \<open>id\<close>, its \<open>errors\<close> (\<open>null\<close> after a successful
  compilation, an array of messages otherwise) and \<open>getLocation\<close>, which yields the
  location of a uniform or nothing.
\<close>

type_synonym location = nat

record program =
  program_id :: nat
  program_errors :: "string list option"
  getLocation :: "string \<Rightarrow> location option"

text \<open>
  What the renderer calls but does not define: the \<open>Program\<close> constructor, the
  section-plane state's \<open>getHash\<close>, and the helpers of math/math.js and
  math/rtcCoords.js. They are parameters of the model, and so are JavaScript's
  arithmetic on numbers (\<open>num_add\<close>, \<open>num_sub\<close> and \<open>num_div\<close> for \<open>+\<close>, \<open>-\<close> and \<open>/\<close>,
  with the rounding of the array the result is stored in), \<open>Math.log\<close> and \<open>Math.LN2\<close>.
\<close>

record env =
  newProgram :: "shaderSource \<Rightarrow> program"
  sectionPlanesState_getHash :: "sectionPlane list \<Rightarrow> string"
  transformPoint3 :: "mat4 \<Rightarrow> vec3 \<Rightarrow> vec3"
  createRTCViewMat :: "mat4 \<Rightarrow> vec3 \<Rightarrow> mat4"
  getPlaneRTCPos :: "real \<Rightarrow> vec3 \<Rightarrow> vec3 \<Rightarrow> vec3"
  num_add :: "real \<Rightarrow> real \<Rightarrow> real"
  num_sub :: "real \<Rightarrow> real \<Rightarrow> real"
  num_div :: "real \<Rightarrow> real \<Rightarrow> real"
  Math_log :: "real \<Rightarrow> real"
  Math_LN2 :: real

record sectionPlaneUniforms =
  uActive :: "location option"
  uPos :: "location option"
  uDir :: "location option"

text \<open>
  The fields of a \<open>TrianglesDataTextureDepthRenderer\<close>. A field that is \<open>undefined\<close>
  or \<open>null\<close> is \<open>None\<close>. The scene that \<open>this._scene\<close> refers to is shared with the
  rest of the viewer and changes between calls, so every operation takes its current
  value as an argument.
\<close>

record renderer =
  program :: "program option"
  errors :: "string list option"
  hash :: "string option"
  uRenderPass :: "location option"
  uPositionsDecodeMatrix :: "location option"
  uSceneModelMatrix :: "location option"
  uViewMatrix :: "location option"
  uProjMatrix :: "location option"
  uSectionPlanes :: "sectionPlaneUniforms list option"
  uLogDepthBufFC :: "location option"
  uTexturePerObjectPositionsDecodeMatrix :: "string option"
  uTexturePerObjectColorsAndFlags :: "string option"
  uTexturePerVertexIdCoordinates :: "string option"
  uTexturePerPolygonIdNormals :: "string option"
  uTexturePerPolygonIdIndices :: "string option"
  uTexturePerPolygonIdPortionIds :: "string option"
  uTexturePerObjectMatrix :: "string option"
  uCameraEyeRtc :: "location option"

definition unallocated :: renderer where
  "unallocated =
     \<lparr>program = None, errors = None, hash = None, uRenderPass = None,
      uPositionsDecodeMatrix = None, uSceneModelMatrix = None, uViewMatrix = None,
      uProjMatrix = None, uSectionPlanes = None, uLogDepthBufFC = None,
      uTexturePerObjectPositionsDecodeMatrix = None,
      uTexturePerObjectColorsAndFlags = None, uTexturePerVertexIdCoordinates = None,
      uTexturePerPolygonIdNormals = None, uTexturePerPolygonIdIndices = None,
      uTexturePerPolygonIdPortionIds = None, uTexturePerObjectMatrix = None,
      uCameraEyeRtc = None\<rparr>"

text \<open>\<open>_getHash\<close> and \<open>getValid\<close>.\<close>

definition getHash :: "env \<Rightarrow> scene \<Rightarrow> string" where
  "getHash env scene = sectionPlanesState_getHash env (sectionPlanes scene)"

definition getValid :: "env \<Rightarrow> scene \<Rightarrow> renderer \<Rightarrow> bool" where
  "getValid env scene this = (hash this = Some (getHash env scene))"

text \<open>
  \<open>_allocate\<close>: the new program object is stored first; when it carries errors they are
  copied to \<open>this.errors\<close> and nothing else is assigned.
\<close>

definition allocate :: "env \<Rightarrow> scene \<Rightarrow> renderer \<Rightarrow> renderer" where
  "allocate env scene this =
     (let p = newProgram env (buildShader scene);
          this = this\<lparr>program := Some p\<rparr>
      in case program_errors p of
           Some errs \<Rightarrow> this\<lparr>errors := Some errs\<rparr>
         | None \<Rightarrow>
             (let this = this
                   \<lparr>uRenderPass := getLocation p ''renderPass'',
                    uPositionsDecodeMatrix := getLocation p ''objectDecodeAndInstanceMatrix'',
                    uSceneModelMatrix := getLocation p ''sceneModelMatrix'',
                    uViewMatrix := getLocation p ''viewMatrix'',
                    uProjMatrix := getLocation p ''projMatrix'',
                    uSectionPlanes := Some (map (\<lambda>i.
                       \<lparr>uActive = getLocation p (''sectionPlaneActive'' @ string_of_nat i),
                        uPos = getLocation p (''sectionPlanePos'' @ string_of_nat i),
                        uDir = getLocation p (''sectionPlaneDir'' @ string_of_nat i)\<rparr>)
                       [0..<length (sectionPlanes scene)])\<rparr>;
                  this = (if logarithmicDepthBufferEnabled scene
                          then this\<lparr>uLogDepthBufFC := getLocation p ''logDepthBufFC''\<rparr>
                          else this)
              in this
                   \<lparr>uTexturePerObjectPositionsDecodeMatrix :=
                      Some ''uObjectPerObjectPositionsDecodeMatrix'',
                    uTexturePerObjectColorsAndFlags := Some ''uObjectPerObjectColorsAndFlags'',
                    uTexturePerVertexIdCoordinates := Some ''uTexturePerVertexIdCoordinates'',
                    uTexturePerPolygonIdNormals := Some ''uTexturePerPolygonIdNormals'',
                    uTexturePerPolygonIdIndices := Some ''uTexturePerPolygonIdIndices'',
                    uTexturePerPolygonIdPortionIds := Some ''uTexturePerPolygonIdPortionIds'',
                    uTexturePerObjectMatrix := Some ''uTexturePerObjectMatrix'',
                    uCameraEyeRtc := getLocation p ''uCameraEyeRtc''\<rparr>))"

text \<open>The constructor: \<open>_allocate\<close>, then the hash of the scene it was built for.\<close>

definition new_renderer :: "env \<Rightarrow> scene \<Rightarrow> renderer" where
  "new_renderer env scene = (allocate env scene unallocated)\<lparr>hash := Some (getHash env scene)\<rparr>"

text \<open>\<open>webglContextRestored\<close> and \<open>destroy\<close> both leave \<open>this._program\<close> null.\<close>

definition webglContextRestored :: "renderer \<Rightarrow> renderer" where
  "webglContextRestored this = this\<lparr>program := None\<rparr>"

definition destroy :: "renderer \<Rightarrow> renderer" where
  "destroy this = this\<lparr>program := None\<rparr>"

section \<open>Drawing a layer\<close>

text \<open>
  The frame context, and what \<open>drawLayer\<close> reads of a data-texture layer:
  \<open>dataTextureLayer.model\<close> (with \<open>model.renderFlags.sectionPlanesActivePerLayer\<close>),
  \<open>dataTextureLayer._state\<close> and \<open>dataTextureLayer.layerIndex\<close>. The layer's origin is
  optional because the source tests \<open>if (origin)\<close>.
\<close>

record frameCtx =
  lastProgramId :: "nat option"
  drawElements :: int
  pickZFar :: real

record layerModel =
  position :: vec3
  rotationMatrix :: mat4
  rotationMatrixConjugate :: mat4
  sectionPlanesActivePerLayer :: "bool list"

record layerState =
  origin :: "vec3 option"
  numIndices8Bits :: int
  numIndices16Bits :: int
  numIndices32Bits :: int

record dataTextureLayer =
  model :: layerModel
  state :: layerState
  layerIndex :: nat

text \<open>
  The calls that \<open>drawLayer\<close> makes on the WebGL context, the program and the layer's
  texture state, in the order made. \<open>ProgramBind\<close> is \<open>program.bind()\<close>; the two texture
  binds are the methods of \<open>textureState\<close>, with the program's id and the sampler names
  they receive; \<open>DrawArrays n\<close> is \<open>gl.drawArrays(gl.TRIANGLES, 0, n)\<close>.
\<close>

datatype glCall =
    ProgramBind nat
  | BindCommonTextures nat "string option" "string option" "string option" "string option"
  | BindTriangleIndicesTextures nat "string option" "string option" nat
  | UniformMatrix4fv "location option" mat4
  | Uniform3fv "location option" vec3
  | Uniform1i "location option" int
  | Uniform1f "location option" real
  | DrawArrays int

text \<open>How a call ends: at its last statement, at the \<open>return\<close> of the error guard, or
  with the \<open>TypeError\<close> of reading a property of \<open>null\<close> or \<open>undefined\<close>.\<close>

datatype outcome = Completed | AbortedOnErrors | ThrewTypeError

record drawResult =
  renderer_after :: renderer
  frameCtx_after :: frameCtx
  calls :: "glCall list"
  outcome :: outcome

text \<open>\<open>2.0 / (Math.log(far + 1.0) / Math.LN2)\<close>, as computed in \<open>_bindProgram\<close>
  and in \<open>drawLayer\<close>, in JavaScript's arithmetic.\<close>

definition logDepthBufFC :: "env \<Rightarrow> real \<Rightarrow> real" where
  "logDepthBufFC env far =
     num_div env 2 (num_div env (Math_log env (num_add env far 1)) (Math_LN2 env))"

text \<open>\<open>_bindProgram\<close>.\<close>

definition bindProgram :: "env \<Rightarrow> scene \<Rightarrow> renderer \<Rightarrow> program \<Rightarrow> glCall list" where
  "bindProgram env scene this p =
     [ProgramBind (program_id p),
      UniformMatrix4fv (uProjMatrix this) (project_matrix (camera scene))] @
     (if logarithmicDepthBufferEnabled scene
      then [Uniform1f (uLogDepthBufFC this) (logDepthBufFC env (project_far (camera scene)))]
      else [])"

text \<open>Lines 61 to 89 of \<open>drawLayer\<close>: the view matrix and the camera eye that are
  uploaded, for a layer origin that is present.\<close>

definition nonZero :: "vec3 \<Rightarrow> bool" where
  "nonZero v = (case v of (x, y, z) \<Rightarrow> x \<noteq> 0 \<or> y \<noteq> 0 \<or> z \<noteq> 0)"

text \<open>\<open>rtcOrigin\<close> after line 80: the rotated origin, or zero for a zero origin, with
  the position added component by component.\<close>

definition rtcOrigin :: "env \<Rightarrow> layerModel \<Rightarrow> vec3 \<Rightarrow> vec3" where
  "rtcOrigin env m orig =
     (case (if nonZero orig then transformPoint3 env (rotationMatrix m) orig else (0, 0, 0)) of
        (r0, r1, r2) \<Rightarrow>
          case position m of
            (p0, p1, p2) \<Rightarrow> (num_add env r0 p0, num_add env r1 p1, num_add env r2 p2))"

definition rtcViewAndEye :: "env \<Rightarrow> camera \<Rightarrow> layerModel \<Rightarrow> vec3 \<Rightarrow> mat4 \<times> vec3" where
  "rtcViewAndEye env cam m orig =
     (let gotOrigin = nonZero orig; gotPosition = nonZero (position m)
      in if gotOrigin \<or> gotPosition
         then (createRTCViewMat env (viewMatrix cam) (rtcOrigin env m orig),
               (case eye cam of
                  (e0, e1, e2) \<Rightarrow>
                    case rtcOrigin env m orig of
                      (c0, c1, c2) \<Rightarrow> (num_sub env e0 c0, num_sub env e1 c1, num_sub env e2 c2)))
         else (viewMatrix cam, eye cam))"

text \<open>
  Lines 107 to 123: one round of the loop over the section planes. Reading
  \<open>this._uSectionPlanes\<close> or \<open>sectionPlanesActivePerLayer\<close> past its end gives
  \<open>undefined\<close>, which is falsy.
\<close>

definition activePerLayer :: "bool list \<Rightarrow> nat \<Rightarrow> bool" where
  "activePerLayer flags k = (k < length flags \<and> flags ! k)"

definition sectionPlaneCalls ::
  "env \<Rightarrow> sectionPlaneUniforms list \<Rightarrow> bool list \<Rightarrow> nat \<Rightarrow> vec3 option \<Rightarrow>
   sectionPlane list \<Rightarrow> nat \<Rightarrow> glCall list" where
  "sectionPlaneCalls env us flags baseIndex orig planes i =
     (if i < length us then
        (let u = us ! i; active = activePerLayer flags (baseIndex + i)
         in Uniform1i (uActive u) (if active then 1 else 0) #
            (if active then
               (let sectionPlane = planes ! i
                in [Uniform3fv (uPos u)
                      (case orig of
                         Some c \<Rightarrow> getPlaneRTCPos env (dist_sp sectionPlane) (dir sectionPlane) c
                       | None \<Rightarrow> pos sectionPlane),
                    Uniform3fv (uDir u) (dir sectionPlane)])
             else []))
      else [])"

definition allSectionPlaneCalls ::
  "env \<Rightarrow> sectionPlaneUniforms list \<Rightarrow> bool list \<Rightarrow> nat \<Rightarrow> vec3 option \<Rightarrow>
   sectionPlane list \<Rightarrow> glCall list" where
  "allSectionPlaneCalls env us flags baseIndex orig planes =
     concat (map (sectionPlaneCalls env us flags baseIndex orig planes) [0..<length planes])"

text \<open>Lines 126 to 157: one texture bind and one draw for each index width in use.\<close>

definition bucketCalls :: "renderer \<Rightarrow> program \<Rightarrow> layerState \<Rightarrow> glCall list" where
  "bucketCalls this p st =
     (if numIndices8Bits st > 0
      then [BindTriangleIndicesTextures (program_id p) (uTexturePerPolygonIdPortionIds this)
              (uTexturePerPolygonIdIndices this) 8,
            DrawArrays (numIndices8Bits st)]
      else []) @
     (if numIndices16Bits st > 0
      then [BindTriangleIndicesTextures (program_id p) (uTexturePerPolygonIdPortionIds this)
              (uTexturePerPolygonIdIndices this) 16,
            DrawArrays (numIndices16Bits st)]
      else []) @
     (if numIndices32Bits st > 0
      then [BindTriangleIndicesTextures (program_id p) (uTexturePerPolygonIdPortionIds this)
              (uTexturePerPolygonIdIndices this) 32,
            DrawArrays (numIndices32Bits st)]
      else [])"

text \<open>Lines 53 to 59 and 91 to 100: the calls made for every layer.\<close>

definition commonTextureCalls :: "renderer \<Rightarrow> program \<Rightarrow> glCall list" where
  "commonTextureCalls this p =
     [BindCommonTextures (program_id p) (uTexturePerObjectPositionsDecodeMatrix this)
        (uTexturePerVertexIdCoordinates this) (uTexturePerObjectColorsAndFlags this)
        (uTexturePerObjectMatrix this)]"

definition uniformCalls ::
  "env \<Rightarrow> scene \<Rightarrow> renderer \<Rightarrow> frameCtx \<Rightarrow> layerModel \<Rightarrow> mat4 \<Rightarrow> vec3 \<Rightarrow> int \<Rightarrow> glCall list" where
  "uniformCalls env scene this frameCtx m rtcViewMatrix rtcCameraEye renderPass =
     [UniformMatrix4fv (uSceneModelMatrix this) (rotationMatrixConjugate m),
      UniformMatrix4fv (uViewMatrix this) rtcViewMatrix,
      UniformMatrix4fv (uProjMatrix this) (projMatrix (camera scene)),
      Uniform3fv (uCameraEyeRtc this) rtcCameraEye,
      Uniform1i (uRenderPass this) renderPass] @
     (if logarithmicDepthBufferEnabled scene
      then [Uniform1f (uLogDepthBufFC this) (logDepthBufFC env (pickZFar frameCtx))]
      else [])"

text \<open>
  \<open>drawLayer(frameCtx, dataTextureLayer, renderPass)\<close>. The result holds the renderer
  and the frame context as the call leaves them, the calls it made, and how it ended.
  A \<open>TypeError\<close> is raised where the source reads \<open>origin[0]\<close> of an absent origin
  (line 64) and where it indexes \<open>this._uSectionPlanes\<close> while that is still
  \<open>undefined\<close> (line 108); what was done before stays done.
\<close>

definition drawLayer ::
  "env \<Rightarrow> scene \<Rightarrow> renderer \<Rightarrow> frameCtx \<Rightarrow> dataTextureLayer \<Rightarrow> int \<Rightarrow> drawResult" where
  "drawLayer env scene this0 frameCtx0 layer renderPass =
     (let noProgram = (program this0 = None);
          this = (if noProgram then allocate env scene this0 else this0)
      in if noProgram \<and> errors this \<noteq> None
         then \<lparr>renderer_after = this, frameCtx_after = frameCtx0, calls = [],
               outcome = AbortedOnErrors\<rparr>
         else
           (case program this of
              None \<Rightarrow>
                \<lparr>renderer_after = this, frameCtx_after = frameCtx0, calls = [],
                 outcome = ThrewTypeError\<rparr>
            | Some p \<Rightarrow>
                (let rebind = (lastProgramId frameCtx0 \<noteq> Some (program_id p));
                     frameCtx = (if rebind then frameCtx0\<lparr>lastProgramId := Some (program_id p)\<rparr>
                                 else frameCtx0);
                     calls1 = (if rebind then bindProgram env scene this p else []) @
                              commonTextureCalls this p
                 in case origin (state layer) of
                      None \<Rightarrow>
                        \<lparr>renderer_after = this, frameCtx_after = frameCtx, calls = calls1,
                         outcome = ThrewTypeError\<rparr>
                    | Some orig \<Rightarrow>
                        (let (rtcViewMatrix, rtcCameraEye) =
                               rtcViewAndEye env (camera scene) (model layer) orig;
                             calls2 = calls1 @
                               uniformCalls env scene this frameCtx (model layer) rtcViewMatrix
                                 rtcCameraEye renderPass;
                             numSectionPlanes = length (sectionPlanes scene)
                         in if numSectionPlanes > 0
                            then
                              (case uSectionPlanes this of
                                 None \<Rightarrow>
                                   \<lparr>renderer_after = this, frameCtx_after = frameCtx,
                                    calls = calls2, outcome = ThrewTypeError\<rparr>
                               | Some us \<Rightarrow>
                                   \<lparr>renderer_after = this,
                                    frameCtx_after =
                                      frameCtx\<lparr>drawElements := drawElements frameCtx + 1\<rparr>,
                                    calls = calls2 @
                                      allSectionPlaneCalls env us
                                        (sectionPlanesActivePerLayer (model layer))
                                        (layerIndex layer * numSectionPlanes)
                                        (origin (state layer)) (sectionPlanes scene) @
                                      bucketCalls this p (state layer),
                                    outcome = Completed\<rparr>)
                            else
                              \<lparr>renderer_after = this,
                               frameCtx_after =
                                 frameCtx\<lparr>drawElements := drawElements frameCtx + 1\<rparr>,
                               calls = calls2 @ bucketCalls this p (state layer),
                               outcome = Completed\<rparr>))))"

text \<open>What the claims count in a list of calls: the draw invocations with their index
  counts, and the program binds.\<close>

fun drawCounts :: "glCall list \<Rightarrow> int list" where
  "drawCounts [] = []"
| "drawCounts (DrawArrays n # cs) = n # drawCounts cs"
| "drawCounts (_ # cs) = drawCounts cs"

fun programBinds :: "glCall list \<Rightarrow> nat" where
  "programBinds [] = 0"
| "programBinds (ProgramBind _ # cs) = Suc (programBinds cs)"
| "programBinds (_ # cs) = programBinds cs"




text \<open>Two consecutive calls on one renderer with one frame context: the second call
  starts from the renderer and the frame context as the first one left them.\<close>

definition drawLayer_twice ::
  "env \<Rightarrow> scene \<Rightarrow> renderer \<Rightarrow> frameCtx \<Rightarrow> dataTextureLayer \<Rightarrow> dataTextureLayer \<Rightarrow> int \<Rightarrow>
   drawResult \<times> drawResult" where
  "drawLayer_twice env scene this frameCtx layerA layerB renderPass =
     (let r1 = drawLayer env scene this frameCtx layerA renderPass;
          r2 = drawLayer env scene (renderer_after r1) (frameCtx_after r1) layerB renderPass
      in (r1, r2))"

section \<open>The generated vertex stage\<close>

text \<open>
  What the lines of \<open>_buildVertexShader\<close> compute when they run as a vertex shader,
  statement by statement. An \<open>int\<close> and a \<open>uint\<close> of the shading language are 32-bit
  words; \<open>>>\<close> on an \<open>int\<close> is the arithmetic shift, \<open>/\<close> and \<open>%\<close> on \<open>int\<close>s truncate
  towards zero. A \<open>float\<close> is a real number. A \<open>mat4\<close> is the tuple of its four columns, so
  \<open>m[2][3]\<close> is the fourth component of the third column. \<open>gl_VertexID\<close> is the
  non-negative vertex number that the draw call supplies.
\<close>

type_synonym i32 = "32 word"
type_synonym ivec2 = "i32 \<times> i32"
type_synonym uvec4 = "i32 \<times> i32 \<times> i32 \<times> i32"
type_synonym vec4 = "real \<times> real \<times> real \<times> real"
type_synonym glmat4 = "vec4 \<times> vec4 \<times> vec4 \<times> vec4"

text \<open>The uniforms and the samplers of the vertex stage; a sampler is the function
  that \<open>texelFetch\<close> evaluates at level 0.\<close>

record uniforms =
  renderPass_u :: i32
  sceneModelMatrix_u :: glmat4
  viewMatrix_u :: glmat4
  projMatrix_u :: glmat4
  uCameraEyeRtc_u :: vec3
  uObjectPerObjectPositionsDecodeMatrix_u :: "ivec2 \<Rightarrow> vec4"
  uTexturePerObjectMatrix_u :: "ivec2 \<Rightarrow> vec4"
  uObjectPerObjectColorsAndFlags_u :: "ivec2 \<Rightarrow> uvec4"
  uTexturePerVertexIdCoordinates_u :: "ivec2 \<Rightarrow> uvec4"
  uTexturePerPolygonIdIndices_u :: "ivec2 \<Rightarrow> uvec4"
  uTexturePerPolygonIdPortionIds_u :: "ivec2 \<Rightarrow> uvec4"

text \<open>The built-in functions \<open>inverse\<close> and \<open>normalize\<close>: the shading language leaves
  their results open for a singular matrix and for the zero vector, so the model takes
  them as given.\<close>

record glsl =
  inverse_mat4 :: "glmat4 \<Rightarrow> glmat4"
  normalize_vec3 :: "vec3 \<Rightarrow> vec3"

definition glsl_div :: "i32 \<Rightarrow> i32 \<Rightarrow> i32" where
  "glsl_div a b = word_of_int (sint a sdiv sint b)"

definition glsl_mod :: "i32 \<Rightarrow> i32 \<Rightarrow> i32" where
  "glsl_mod a b = word_of_int (sint a smod sint b)"

definition vec3_sub :: "vec3 \<Rightarrow> vec3 \<Rightarrow> vec3" where
  "vec3_sub a b = (case a of (a0, a1, a2) \<Rightarrow> case b of (b0, b1, b2) \<Rightarrow> (a0 - b0, a1 - b1, a2 - b2))"

definition vec3_neg :: "vec3 \<Rightarrow> vec3" where
  "vec3_neg a = (case a of (a0, a1, a2) \<Rightarrow> (- a0, - a1, - a2))"

definition vec3_dot :: "vec3 \<Rightarrow> vec3 \<Rightarrow> real" where
  "vec3_dot a b = (case a of (a0, a1, a2) \<Rightarrow> case b of (b0, b1, b2) \<Rightarrow> a0 * b0 + a1 * b1 + a2 * b2)"

definition vec3_cross :: "vec3 \<Rightarrow> vec3 \<Rightarrow> vec3" where
  "vec3_cross a b =
     (case a of (a0, a1, a2) \<Rightarrow> case b of (b0, b1, b2) \<Rightarrow>
        (a1 * b2 - a2 * b1, a2 * b0 - a0 * b2, a0 * b1 - a1 * b0))"

definition vec4_of :: "vec3 \<Rightarrow> real \<Rightarrow> vec4" where
  "vec4_of v w = (case v of (x, y, z) \<Rightarrow> (x, y, z, w))"

definition xyz :: "vec4 \<Rightarrow> vec3" where
  "xyz v = (case v of (x, y, z, w) \<Rightarrow> (x, y, z))"

definition vec4_scale :: "real \<Rightarrow> vec4 \<Rightarrow> vec4" where
  "vec4_scale k v = (case v of (x, y, z, w) \<Rightarrow> (k * x, k * y, k * z, k * w))"

definition vec4_add :: "vec4 \<Rightarrow> vec4 \<Rightarrow> vec4" where
  "vec4_add a b =
     (case a of (a0, a1, a2, a3) \<Rightarrow> case b of (b0, b1, b2, b3) \<Rightarrow>
        (a0 + b0, a1 + b1, a2 + b2, a3 + b3))"

text \<open>\<open>m * v\<close>, \<open>a * b\<close> and \<open>transpose(m)\<close> for column-major matrices.\<close>

definition mat4_vec :: "glmat4 \<Rightarrow> vec4 \<Rightarrow> vec4" where
  "mat4_vec m v =
     (case m of (c0, c1, c2, c3) \<Rightarrow> case v of (x, y, z, w) \<Rightarrow>
        vec4_add (vec4_add (vec4_scale x c0) (vec4_scale y c1))
                 (vec4_add (vec4_scale z c2) (vec4_scale w c3)))"

definition mat4_mul :: "glmat4 \<Rightarrow> glmat4 \<Rightarrow> glmat4" where
  "mat4_mul a b =
     (case b of (b0, b1, b2, b3) \<Rightarrow> (mat4_vec a b0, mat4_vec a b1, mat4_vec a b2, mat4_vec a b3))"

definition mat4_transpose :: "glmat4 \<Rightarrow> glmat4" where
  "mat4_transpose m =
     (case m of ((a0, a1, a2, a3), (b0, b1, b2, b3), (c0, c1, c2, c3), (d0, d1, d2, d3)) \<Rightarrow>
        ((a0, b0, c0, d0), (a1, b1, c1, d1), (a2, b2, c2, d2), (a3, b3, c3, d3)))"

text \<open>\<open>isPerspectiveMatrix\<close>, as the generated source defines it.\<close>

definition isPerspectiveMatrix :: "glmat4 \<Rightarrow> bool" where
  "isPerspectiveMatrix m = (case m of (c0, c1, (x, y, z, w), c3) \<Rightarrow> w = - 1)"

text \<open>
  The object of the triangle that \<open>gl_VertexID\<close> belongs to: \<open>polygonIndex\<close>,
  \<open>objectIndex\<close> and \<open>objectIndexCoords\<close>.
\<close>

definition polygonIndex :: "nat \<Rightarrow> i32" where
  "polygonIndex gl_VertexID = word_of_nat (gl_VertexID div 3)"

definition objectIndexCoords :: "uniforms \<Rightarrow> nat \<Rightarrow> ivec2" where
  "objectIndexCoords u gl_VertexID =
     (let h_packed_object_id_index = signed_drop_bit 3 (polygonIndex gl_VertexID) AND 4095;
          v_packed_object_id_index =
            signed_drop_bit 12 (signed_drop_bit 3 (polygonIndex gl_VertexID));
          objectIndex =
            (case uTexturePerPolygonIdPortionIds_u u
                    (h_packed_object_id_index, v_packed_object_id_index) of
               (r, g, b, a) \<Rightarrow> r)
      in (glsl_mod objectIndex 512, glsl_div objectIndex 512))"

text \<open>\<open>texelFetch (uObjectPerObjectColorsAndFlags, ivec2(objectIndexCoords.x*8+k,
  objectIndexCoords.y), 0)\<close>: texel 0 is the colour, 2 and 3 are \<open>flags\<close> and \<open>flags2\<close>,
  4 and 5 the packed vertex base and index base offset, 7 holds the solid flag.\<close>

definition objectTexel :: "uniforms \<Rightarrow> nat \<Rightarrow> i32 \<Rightarrow> uvec4" where
  "objectTexel u gl_VertexID k =
     (case objectIndexCoords u gl_VertexID of
        (x, y) \<Rightarrow> uObjectPerObjectColorsAndFlags_u u (x * 8 + k, y))"

definition flags_x :: "uniforms \<Rightarrow> nat \<Rightarrow> i32" where
  "flags_x u gl_VertexID = (case objectTexel u gl_VertexID 2 of (x, y, z, w) \<Rightarrow> x)"

definition unpackInt :: "uvec4 \<Rightarrow> i32" where
  "unpackInt p = (case p of (r, g, b, a) \<Rightarrow> push_bit 24 r + push_bit 16 g + push_bit 8 b + a)"

text \<open>\<open>positions[0..2]\<close>: the three vertex positions of the triangle.\<close>

definition fetchPosition :: "uniforms \<Rightarrow> i32 \<Rightarrow> vec3" where
  "fetchPosition u uniqueVertexIndex =
     (case uTexturePerVertexIdCoordinates_u u
             (uniqueVertexIndex AND 4095, signed_drop_bit 12 uniqueVertexIndex) of
        (r, g, b, a) \<Rightarrow> (real (unat r), real (unat g), real (unat b)))"

definition positions :: "uniforms \<Rightarrow> nat \<Rightarrow> vec3 list" where
  "positions u gl_VertexID =
     (let indexBaseOffset = unpackInt (objectTexel u gl_VertexID 5);
          h_index = (polygonIndex gl_VertexID - indexBaseOffset) AND 4095;
          v_index = signed_drop_bit 12 (polygonIndex gl_VertexID - indexBaseOffset);
          vertexBase = unpackInt (objectTexel u gl_VertexID 4)
      in case uTexturePerPolygonIdIndices_u u (h_index, v_index) of
           (i0, i1, i2, i3) \<Rightarrow>
             [fetchPosition u (i0 + vertexBase), fetchPosition u (i1 + vertexBase),
              fetchPosition u (i2 + vertexBase)])"

text \<open>\<open>objectDecodeAndInstanceMatrix\<close>: the instance matrix times the decode matrix,
  each read from four texels.\<close>

definition fetchMatrix :: "(ivec2 \<Rightarrow> vec4) \<Rightarrow> ivec2 \<Rightarrow> glmat4" where
  "fetchMatrix sampler coords =
     (case coords of (x, y) \<Rightarrow>
        (sampler (x * 4 + 0, y), sampler (x * 4 + 1, y), sampler (x * 4 + 2, y),
         sampler (x * 4 + 3, y)))"

definition objectDecodeAndInstanceMatrix :: "uniforms \<Rightarrow> nat \<Rightarrow> glmat4" where
  "objectDecodeAndInstanceMatrix u gl_VertexID =
     mat4_mul (fetchMatrix (uTexturePerObjectMatrix_u u) (objectIndexCoords u gl_VertexID))
       (fetchMatrix (uObjectPerObjectPositionsDecodeMatrix_u u)
          (objectIndexCoords u gl_VertexID))"

definition solid :: "uniforms \<Rightarrow> nat \<Rightarrow> i32" where
  "solid u gl_VertexID = (case objectTexel u gl_VertexID 7 of (r, g, b, a) \<Rightarrow> r)"

text \<open>\<open>normal\<close>, the first value of \<open>viewNormal\<close>, and
  \<open>uCameraEyeRtcInQuantizedSpace\<close>.\<close>

definition normal :: "glsl \<Rightarrow> uniforms \<Rightarrow> nat \<Rightarrow> vec3" where
  "normal g u gl_VertexID =
     (let ps = positions u gl_VertexID
      in normalize_vec3 g (vec3_cross (vec3_sub (ps ! 2) (ps ! 0)) (vec3_sub (ps ! 1) (ps ! 0))))"

definition viewNormal :: "glsl \<Rightarrow> uniforms \<Rightarrow> nat \<Rightarrow> vec3" where
  "viewNormal g u gl_VertexID =
     vec3_neg (normalize_vec3 g (xyz (mat4_vec
       (mat4_transpose (inverse_mat4 g
          (mat4_mul (viewMatrix_u u) (objectDecodeAndInstanceMatrix u gl_VertexID))))
       (vec4_of (normal g u gl_VertexID) 1))))"

definition uCameraEyeRtcInQuantizedSpace :: "glsl \<Rightarrow> uniforms \<Rightarrow> nat \<Rightarrow> vec3" where
  "uCameraEyeRtcInQuantizedSpace g u gl_VertexID =
     xyz (mat4_vec
       (inverse_mat4 g
          (mat4_mul (sceneModelMatrix_u u) (objectDecodeAndInstanceMatrix u gl_VertexID)))
       (vec4_of (uCameraEyeRtc_u u) 1))"

text \<open>
  The block that starts with \<open>if (solid != 1u)\<close>: from the values of the variables
  \<open>position\<close> and \<open>viewNormal\<close> before it (here \<open>position_v\<close> and \<open>viewNormal_v\<close>) to
  their values after it.
\<close>

definition flipWinding :: "glsl \<Rightarrow> uniforms \<Rightarrow> nat \<Rightarrow> vec3 \<times> vec3 \<Rightarrow> vec3 \<times> vec3" where
  "flipWinding g u gl_VertexID pv =
     (case pv of (position_v, viewNormal_v) \<Rightarrow>
        if solid u gl_VertexID \<noteq> 1 then
          if isPerspectiveMatrix (projMatrix_u u) then
            if vec3_dot (vec3_sub position_v (uCameraEyeRtcInQuantizedSpace g u gl_VertexID))
                 (normal g u gl_VertexID) < 0
            then (positions u gl_VertexID ! (2 - gl_VertexID mod 3), vec3_neg viewNormal_v)
            else (position_v, viewNormal_v)
          else
            if (case viewNormal_v of (x, y, z) \<Rightarrow> z) < 0
            then (positions u gl_VertexID ! (2 - gl_VertexID mod 3), vec3_neg viewNormal_v)
            else (position_v, viewNormal_v)
        else (position_v, viewNormal_v))"

text \<open>
  What a run of \<open>main\<close> leaves behind. The two early returns write only
  \<open>gl_Position\<close>. A full run writes \<open>gl_Position\<close> and \<open>vHighPrecisionZW\<close>, the two
  logarithmic-depth varyings when the source declares them, and \<open>vWorldPosition\<close> and
  \<open>vFlags2\<close> when it was generated for a scene with section planes; the last values of the
  local variables \<open>position\<close> and \<open>viewNormal\<close> are kept for the statements about them.
\<close>

record vertexOutputs =
  gl_Position :: vec4
  vHighPrecisionZW :: "real \<times> real"
  vFragDepth :: "real option"
  isPerspective :: "real option"
  vWorldPosition :: "vec4 option"
  vFlags2 :: "i32 option"
  position_local :: vec3
  viewNormal_local :: vec3

datatype vertexResult =
    CulledByRenderPass vec4
  | CulledByAlpha vec4
  | Drawn vertexOutputs

text \<open>\<open>main\<close> of the vertex source generated for \<open>scene\<close>.\<close>

definition vertexMain :: "glsl \<Rightarrow> scene \<Rightarrow> uniforms \<Rightarrow> nat \<Rightarrow> vertexResult" where
  "vertexMain g scene u gl_VertexID =
     (if flags_x u gl_VertexID \<noteq> renderPass_u u
      then CulledByRenderPass (3, 3, 3, 1)
      else
        (case objectTexel u gl_VertexID 0 of
           (color_r, color_g, color_b, color_a) \<Rightarrow>
             if color_a = 0
             then CulledByAlpha (3, 3, 3, 1)
             else
               (let (position_v, viewNormal_v) =
                      flipWinding g u gl_VertexID
                        (positions u gl_VertexID ! (gl_VertexID mod 3),
                         viewNormal g u gl_VertexID);
                    worldPosition =
                      mat4_vec (sceneModelMatrix_u u)
                        (mat4_vec (objectDecodeAndInstanceMatrix u gl_VertexID)
                           (vec4_of position_v 1));
                    viewPosition = mat4_vec (viewMatrix_u u) worldPosition;
                    clipPos = mat4_vec (projMatrix_u u) viewPosition
                in Drawn
                     \<lparr>gl_Position = clipPos,
                      vHighPrecisionZW = (case clipPos of (x, y, z, w) \<Rightarrow> (z, w)),
                      vFragDepth =
                        (if logarithmicDepthBufferEnabled scene
                         then Some (1 + (case clipPos of (x, y, z, w) \<Rightarrow> w)) else None),
                      isPerspective =
                        (if logarithmicDepthBufferEnabled scene
                         then Some (if isPerspectiveMatrix (projMatrix_u u) then 1 else 0)
                         else None),
                      vWorldPosition =
                        (if length (sectionPlanes scene) > 0 then Some worldPosition else None),
                      vFlags2 =
                        (if length (sectionPlanes scene) > 0
                         then Some (case objectTexel u gl_VertexID 3 of (r, g, b, a) \<Rightarrow> r)
                         else None),
                      position_local = position_v,
                      viewNormal_local = viewNormal_v\<rparr>)))"

text \<open>The canonical clip volume: \<open>-w \<le> x, y, z \<le> w\<close>.\<close>

definition insideClipVolume :: "vec4 \<Rightarrow> bool" where
  "insideClipVolume v =
     (case v of (x, y, z, w) \<Rightarrow>
        - w \<le> x \<and> x \<le> w \<and> - w \<le> y \<and> y \<le> w \<and> - w \<le> z \<and> z \<le> w)"

section \<open>Example scenes, renderers and layers\<close>

text \<open>
  Concrete inputs at which the theorems below are instantiated. The environments give
  the absent helpers simple stand-ins: a program with a fixed table of uniform
  locations, a hash with one mark per section plane, a rotation that leaves a point
  where it is, a view matrix whose translation entries are replaced by the centre it is
  given, a plane position that is the centre it is given, exact arithmetic, and a
  rational stand-in for the logarithm. \<open>env_failing\<close> differs in
  its \<open>Program\<close> constructor, which reports a compilation error.
\<close>

definition identity_mat4 :: mat4 where
  "identity_mat4 = [1, 0, 0, 0, 0, 1, 0, 0, 0, 0, 1, 0, 0, 0, 0, 1]"

definition program_ok :: program where
  "program_ok =
     \<lparr>program_id = 1, program_errors = None,
      getLocation = map_of
        [(''renderPass'', 0), (''sceneModelMatrix'', 1), (''viewMatrix'', 2),
         (''projMatrix'', 3), (''uCameraEyeRtc'', 4), (''logDepthBufFC'', 5),
         (''sectionPlaneActive0'', 10), (''sectionPlanePos0'', 11), (''sectionPlaneDir0'', 12),
         (''sectionPlaneActive1'', 20), (''sectionPlanePos1'', 21),
         (''sectionPlaneDir1'', 22)]\<rparr>"

definition program_failed :: program where
  "program_failed =
     \<lparr>program_id = 2, program_errors = Some [''Vertex shader failed to compile''],
      getLocation = (\<lambda>name. None)\<rparr>"

definition env_ok :: env where
  "env_ok =
     \<lparr>newProgram = (\<lambda>src. program_ok),
      sectionPlanesState_getHash = (\<lambda>planes. concat (replicate (length planes) ''sp'') @ '';''),
      transformPoint3 = (\<lambda>m p. p),
      createRTCViewMat = (\<lambda>m c. case c of (x, y, z) \<Rightarrow> take 12 m @ [x, y, z, 1]),
      getPlaneRTCPos = (\<lambda>d n c. c),
      num_add = (\<lambda>a b. a + b),
      num_sub = (\<lambda>a b. a - b),
      num_div = (\<lambda>a b. a / b),
      Math_log = (\<lambda>x. x - 1),
      Math_LN2 = 1\<rparr>"

definition env_failing :: env where
  "env_failing = env_ok\<lparr>newProgram := (\<lambda>src. program_failed)\<rparr>"

definition camera_example :: camera where
  "camera_example =
     \<lparr>viewMatrix = identity_mat4, projMatrix = identity_mat4, eye = (0, 0, 10),
      project_matrix = identity_mat4, project_far = 1000\<rparr>"

definition scene_plain :: scene where
  "scene_plain =
     \<lparr>sectionPlanes = [], logarithmicDepthBufferEnabled = False,
      logarithmicDepthBufferSupported = False, entityOffsetsEnabled = False,
      camera = camera_example\<rparr>"

definition scene_logDepth :: scene where
  "scene_logDepth = scene_plain\<lparr>logarithmicDepthBufferEnabled := True\<rparr>"

definition plane_x :: sectionPlane where
  "plane_x = \<lparr>pos = (2, 0, 0), dir = (1, 0, 0), dist_sp = -2\<rparr>"

definition plane_y :: sectionPlane where
  "plane_y = \<lparr>pos = (0, 3, 0), dir = (0, 1, 0), dist_sp = -3\<rparr>"


definition scene_two_planes :: scene where
  "scene_two_planes = scene_plain\<lparr>sectionPlanes := [plane_x, plane_y]\<rparr>"

definition scene_two_planes_moved :: scene where
  "scene_two_planes_moved =
     scene_plain\<lparr>sectionPlanes := [plane_y, plane_x],
       camera := camera_example\<lparr>eye := (5, 5, 5)\<rparr>\<rparr>"

definition frameCtx_fresh :: frameCtx where
  "frameCtx_fresh = \<lparr>lastProgramId = None, drawElements = 0, pickZFar = 1000\<rparr>"

definition frameCtx_bound :: frameCtx where
  "frameCtx_bound = \<lparr>lastProgramId = Some 1, drawElements = 7, pickZFar = 1000\<rparr>"

definition model_at_origin :: layerModel where
  "model_at_origin =
     \<lparr>position = (0, 0, 0), rotationMatrix = identity_mat4,
      rotationMatrixConjugate = identity_mat4, sectionPlanesActivePerLayer = []\<rparr>"

definition layer_example :: dataTextureLayer where
  "layer_example =
     \<lparr>model = model_at_origin,
      state = \<lparr>origin = Some (0, 0, 0), numIndices8Bits = 300, numIndices16Bits = 0,
               numIndices32Bits = 90\<rparr>,
      layerIndex = 0\<rparr>"

definition layer_empty :: dataTextureLayer where
  "layer_empty =
     layer_example\<lparr>state := \<lparr>origin = Some (0, 0, 0), numIndices8Bits = 0,
                              numIndices16Bits = 0, numIndices32Bits = 0\<rparr>\<rparr>"

definition layer_rtc :: dataTextureLayer where
  "layer_rtc =
     \<lparr>model = model_at_origin\<lparr>position := (5, 0, 0),
                sectionPlanesActivePerLayer := [False, True, True, False]\<rparr>,
      state = \<lparr>origin = Some (1, 0, 0), numIndices8Bits = 3, numIndices16Bits = 0,
               numIndices32Bits = 0\<rparr>,
      layerIndex = 1\<rparr>"

text \<open>
  Uniforms and textures for the vertex stage: every polygon belongs to object 0, whose
  texels are the colour (10, 20, 30, 255), the flags (1, 0, 0, 0) at texel 2 and zero
  elsewhere, with identity matrices throughout; every triangle has the vertices 0, 1, 2,
  which lie at (0, 0, 0), (0, 1, 0) and (1, 0, 0). The stand-ins for \<open>inverse\<close> and
  \<open>normalize\<close> return their argument, which is right for the identity matrix and for
  unit vectors.
\<close>

definition identity_glmat4 :: glmat4 where
  "identity_glmat4 = ((1, 0, 0, 0), (0, 1, 0, 0), (0, 0, 1, 0), (0, 0, 0, 1))"

definition uniforms_example :: uniforms where
  "uniforms_example =
     \<lparr>renderPass_u = 1,
      sceneModelMatrix_u = identity_glmat4,
      viewMatrix_u = identity_glmat4,
      projMatrix_u = identity_glmat4,
      uCameraEyeRtc_u = (0, 0, 10),
      uObjectPerObjectPositionsDecodeMatrix_u =
        (\<lambda>c. case c of (x, y) \<Rightarrow>
           if x = 0 then (1, 0, 0, 0) else if x = 1 then (0, 1, 0, 0)
           else if x = 2 then (0, 0, 1, 0) else (0, 0, 0, 1)),
      uTexturePerObjectMatrix_u =
        (\<lambda>c. case c of (x, y) \<Rightarrow>
           if x = 0 then (1, 0, 0, 0) else if x = 1 then (0, 1, 0, 0)
           else if x = 2 then (0, 0, 1, 0) else (0, 0, 0, 1)),
      uObjectPerObjectColorsAndFlags_u =
        (\<lambda>c. case c of (x, y) \<Rightarrow>
           if x = 0 then (10, 20, 30, 255) else if x = 2 then (1, 0, 0, 0) else (0, 0, 0, 0)),
      uTexturePerVertexIdCoordinates_u =
        (\<lambda>c. case c of (x, y) \<Rightarrow>
           if x = 0 then (0, 0, 0, 0) else if x = 1 then (0, 1, 0, 0) else (1, 0, 0, 0)),
      uTexturePerPolygonIdIndices_u = (\<lambda>c. (0, 1, 2, 0)),
      uTexturePerPolygonIdPortionIds_u = (\<lambda>c. (0, 0, 0, 0))\<rparr>"

definition glsl_example :: glsl where
  "glsl_example = \<lparr>inverse_mat4 = (\<lambda>m. m), normalize_vec3 = (\<lambda>v. v)\<rparr>"

section \<open>Properties of the shader source builder\<close>

lemma sectionPlanes_same_length:
  assumes "getHash env s1 = getHash env s2"
      and "\<forall>ps qs. sectionPlanesState_getHash env ps = sectionPlanesState_getHash env qs
             \<longrightarrow> length ps = length qs"
  shows "length (sectionPlanes s1) = length (sectionPlanes s2)"
proof -
  have "sectionPlanesState_getHash env (sectionPlanes s1) =
        sectionPlanesState_getHash env (sectionPlanes s2)"
    using assms(1) unfolding getHash_def .
  with assms(2) show ?thesis by blast
qed

text \<open>
  Claim C1, as amended. Two scene snapshots with the same section-plane hash, where the
  hash tells apart states with different numbers of planes, and with the same
  logarithmic-depth and entity-offset settings, get the same vertex source and the same
  fragment source, line for line. Nothing else of the scene matters.
\<close>

theorem C1_equal_hash_and_flags_same_source:
  assumes "getHash env s1 = getHash env s2"
      and "\<forall>ps qs. sectionPlanesState_getHash env ps = sectionPlanesState_getHash env qs
             \<longrightarrow> length ps = length qs"
      and "logarithmicDepthBufferEnabled s1 = logarithmicDepthBufferEnabled s2"
      and "entityOffsetsEnabled s1 = entityOffsetsEnabled s2"
  shows "buildVertexShader s1 = buildVertexShader s2 \<and>
         buildFragmentShader s1 = buildFragmentShader s2"
proof -
  have len: "length (sectionPlanes s1) = length (sectionPlanes s2)"
    using assms(1,2) by (rule sectionPlanes_same_length)
  show ?thesis
    unfolding buildVertexShader_def buildFragmentShader_def Let_def len assms(3) assms(4)
    by (rule conjI; rule refl)
qed

lemma env_ok_hash_length:
  "\<forall>ps qs. sectionPlanesState_getHash env_ok ps = sectionPlanesState_getHash env_ok qs
             \<longrightarrow> length ps = length qs"
proof (intro allI impI)
  fix ps qs :: "sectionPlane list"
  assume "sectionPlanesState_getHash env_ok ps = sectionPlanesState_getHash env_ok qs"
  then have "length (concat (replicate (length ps) ''sp'') @ '';'') =
             length (concat (replicate (length qs) ''sp'') @ '';'')"
    by (simp add: env_ok_def)
  then show "length ps = length qs"
    by (simp add: length_concat sum_list_replicate)
qed

text \<open>The theorem applied to two scenes with two planes each, in a different order
  and seen from a different camera.\<close>

theorem C1_witness:
  "getHash env_ok scene_two_planes = getHash env_ok scene_two_planes_moved \<and>
   sectionPlanes scene_two_planes \<noteq> sectionPlanes scene_two_planes_moved \<and>
   buildVertexShader scene_two_planes = buildVertexShader scene_two_planes_moved \<and>
   buildFragmentShader scene_two_planes = buildFragmentShader scene_two_planes_moved"
proof -
  have h: "getHash env_ok scene_two_planes = getHash env_ok scene_two_planes_moved"
    by (simp add: getHash_def env_ok_def scene_two_planes_def scene_two_planes_moved_def
        scene_plain_def)
  have f1: "logarithmicDepthBufferEnabled scene_two_planes =
            logarithmicDepthBufferEnabled scene_two_planes_moved"
    by (simp add: scene_two_planes_def scene_two_planes_moved_def scene_plain_def)
  have f2: "entityOffsetsEnabled scene_two_planes = entityOffsetsEnabled scene_two_planes_moved"
    by (simp add: scene_two_planes_def scene_two_planes_moved_def scene_plain_def)
  have d: "sectionPlanes scene_two_planes \<noteq> sectionPlanes scene_two_planes_moved"
    by (simp add: scene_two_planes_def scene_two_planes_moved_def scene_plain_def
        plane_x_def plane_y_def)
  from C1_equal_hash_and_flags_same_source [OF h env_ok_hash_length f1 f2] h d
  show ?thesis by simp
qed

text \<open>
  Claim C1 as stated fails: \<open>scene_plain\<close> and \<open>scene_logDepth\<close> have the same section
  planes, hence the same hash whatever the hash function is, and differ only in
  logarithmic-depth enablement; both of their sources differ.
\<close>

theorem C1_counterexample:
  "getHash env_ok scene_plain = getHash env_ok scene_logDepth \<and>
   sectionPlanes scene_plain = sectionPlanes scene_logDepth \<and>
   buildVertexShader scene_plain \<noteq> buildVertexShader scene_logDepth \<and>
   buildFragmentShader scene_plain \<noteq> buildFragmentShader scene_logDepth"
  by (simp add: getHash_def scene_plain_def scene_logDepth_def buildVertexShader_def
      buildFragmentShader_def)

lemma uniform_lines_not_logDepth:
  "''in float vFragDepth;'' \<notin> set (sectionPlaneUniformLines i)"
  "''in float isPerspective;'' \<notin> set (sectionPlaneUniformLines i)"
  "''    gl_FragDepth = isPerspective == 0.0 ? gl_FragCoord.z : log2( vFragDepth ) * logDepthBufFC * 0.5;''
     \<notin> set (sectionPlaneUniformLines i)"
  by (simp_all add: sectionPlaneUniformLines_def)

lemma clip_lines_not_logDepth:
  "''in float vFragDepth;'' \<notin> set (sectionPlaneClipLines i)"
  "''in float isPerspective;'' \<notin> set (sectionPlaneClipLines i)"
  "''    gl_FragDepth = isPerspective == 0.0 ? gl_FragCoord.z : log2( vFragDepth ) * logDepthBufFC * 0.5;''
     \<notin> set (sectionPlaneClipLines i)"
  by (simp_all add: sectionPlaneClipLines_def)

lemma vertex_vFragDepth:
  "''out float vFragDepth;'' \<in> set (buildVertexShader s) \<longleftrightarrow> logarithmicDepthBufferEnabled s"
  by (simp add: buildVertexShader_def Let_def)

lemma vertex_isPerspective:
  "''out float isPerspective;'' \<in> set (buildVertexShader s) \<longleftrightarrow> logarithmicDepthBufferEnabled s"
  by (simp add: buildVertexShader_def Let_def)

lemma fragment_vFragDepth:
  "''in float vFragDepth;'' \<in> set (buildFragmentShader s) \<longleftrightarrow> logarithmicDepthBufferEnabled s"
  by (simp add: buildFragmentShader_def Let_def uniform_lines_not_logDepth clip_lines_not_logDepth)

lemma fragment_isPerspective:
  "''in float isPerspective;'' \<in> set (buildFragmentShader s) \<longleftrightarrow> logarithmicDepthBufferEnabled s"
  by (simp add: buildFragmentShader_def Let_def uniform_lines_not_logDepth clip_lines_not_logDepth)

lemma fragment_formula:
  "''    gl_FragDepth = isPerspective == 0.0 ? gl_FragCoord.z : log2( vFragDepth ) * logDepthBufFC * 0.5;''
     \<in> set (buildFragmentShader s) \<longleftrightarrow> logarithmicDepthBufferEnabled s"
  by (simp add: buildFragmentShader_def Let_def uniform_lines_not_logDepth clip_lines_not_logDepth)

text \<open>
  Claim C4, as amended. The declarations of the varyings \<open>vFragDepth\<close> and
  \<open>isPerspective\<close> are lines of the vertex source (as outputs) and of the fragment source
  (as inputs), and the assignment to \<open>gl_FragDepth\<close> is a line of the fragment source,
  exactly when \<open>scene.logarithmicDepthBufferEnabled\<close> holds. Platform support plays no
  part. The assignment reads \<open>isPerspective == 0.0 ? gl_FragCoord.z : log2( vFragDepth ) *
  logDepthBufFC * 0.5\<close>.
\<close>

theorem C4_logDepth_lines_iff_enabled:
  "(''out float vFragDepth;'' \<in> set (buildVertexShader s) \<longleftrightarrow> logarithmicDepthBufferEnabled s) \<and>
   (''out float isPerspective;'' \<in> set (buildVertexShader s) \<longleftrightarrow> logarithmicDepthBufferEnabled s) \<and>
   (''in float vFragDepth;'' \<in> set (buildFragmentShader s) \<longleftrightarrow> logarithmicDepthBufferEnabled s) \<and>
   (''in float isPerspective;'' \<in> set (buildFragmentShader s) \<longleftrightarrow> logarithmicDepthBufferEnabled s) \<and>
   (''    gl_FragDepth = isPerspective == 0.0 ? gl_FragCoord.z : log2( vFragDepth ) * logDepthBufFC * 0.5;''
      \<in> set (buildFragmentShader s) \<longleftrightarrow> logarithmicDepthBufferEnabled s)"
  using vertex_vFragDepth vertex_isPerspective fragment_vFragDepth fragment_isPerspective
    fragment_formula by blast

theorem C4_witness:
  "\<not> logarithmicDepthBufferEnabled scene_plain \<and>
   ''out float vFragDepth;'' \<notin> set (buildVertexShader scene_plain) \<and>
   ''in float isPerspective;'' \<notin> set (buildFragmentShader scene_plain)"
  using C4_logDepth_lines_iff_enabled [of scene_plain] by (simp add: scene_plain_def)

text \<open>
  Claim C4 as stated fails: in \<open>scene_logDepth\<close> logarithmic depth is enabled and
  not supported by the platform, and the lines are emitted all the same.
\<close>

theorem C4_counterexample:
  "logarithmicDepthBufferEnabled scene_logDepth \<and>
   \<not> logarithmicDepthBufferSupported scene_logDepth \<and>
   ''out float vFragDepth;'' \<in> set (buildVertexShader scene_logDepth) \<and>
   ''out float isPerspective;'' \<in> set (buildVertexShader scene_logDepth) \<and>
   ''in float vFragDepth;'' \<in> set (buildFragmentShader scene_logDepth) \<and>
   ''in float isPerspective;'' \<in> set (buildFragmentShader scene_logDepth) \<and>
   ''    gl_FragDepth = isPerspective == 0.0 ? gl_FragCoord.z : log2( vFragDepth ) * logDepthBufFC * 0.5;''
      \<in> set (buildFragmentShader scene_logDepth)"
  by (simp add: scene_logDepth_def scene_plain_def buildVertexShader_def buildFragmentShader_def)

text \<open>In the occlusion shader of the other source file the same varying needs the
  platform's support as well.\<close>

lemma occlusion_vFragDepth:
  "''varying float vFragDepth;'' \<in> set (buildVertex s) \<longleftrightarrow>
     logarithmicDepthBufferEnabled s \<and> logarithmicDepthBufferSupported s"
  by (simp add: buildVertex_def Let_def)

section \<open>Properties of the layer renderer\<close>

subsection \<open>Counting calls\<close>

lemma drawCounts_append: "drawCounts (xs @ ys) = drawCounts xs @ drawCounts ys"
  by (induction xs rule: drawCounts.induct) simp_all

lemma programBinds_append: "programBinds (xs @ ys) = programBinds xs + programBinds ys"
  by (induction xs rule: programBinds.induct) simp_all

lemma drawCounts_bindProgram: "drawCounts (bindProgram env scene this p) = []"
  by (simp add: bindProgram_def)

lemma drawCounts_commonTextureCalls: "drawCounts (commonTextureCalls this p) = []"
  by (simp add: commonTextureCalls_def)

lemma drawCounts_uniformCalls: "drawCounts (uniformCalls env scene this fc m V E rp) = []"
  by (simp add: uniformCalls_def)

lemma drawCounts_sectionPlaneCalls:
  "drawCounts (sectionPlaneCalls env us flags b orig planes i) = []"
  by (simp add: sectionPlaneCalls_def Let_def)

lemma drawCounts_allSectionPlaneCalls:
  "drawCounts (allSectionPlaneCalls env us flags b orig planes) = []"
proof -
  have "drawCounts (concat (map (sectionPlaneCalls env us flags b orig planes) ns)) = []" for ns
    by (induction ns) (simp_all add: drawCounts_append drawCounts_sectionPlaneCalls)
  then show ?thesis by (simp add: allSectionPlaneCalls_def)
qed

lemma drawCounts_bucketCalls:
  "drawCounts (bucketCalls this p st) =
     filter (\<lambda>n. 0 < n) [numIndices8Bits st, numIndices16Bits st, numIndices32Bits st]"
  by (simp add: bucketCalls_def drawCounts_append)

lemma programBinds_bindProgram: "programBinds (bindProgram env scene this p) = 1"
  by (simp add: bindProgram_def)

lemma programBinds_commonTextureCalls: "programBinds (commonTextureCalls this p) = 0"
  by (simp add: commonTextureCalls_def)

lemma programBinds_uniformCalls: "programBinds (uniformCalls env scene this fc m V E rp) = 0"
  by (simp add: uniformCalls_def)

lemma programBinds_sectionPlaneCalls:
  "programBinds (sectionPlaneCalls env us flags b orig planes i) = 0"
  by (simp add: sectionPlaneCalls_def Let_def)

lemma programBinds_allSectionPlaneCalls:
  "programBinds (allSectionPlaneCalls env us flags b orig planes) = 0"
proof -
  have "programBinds (concat (map (sectionPlaneCalls env us flags b orig planes) ns)) = 0" for ns
    by (induction ns) (simp_all add: programBinds_append programBinds_sectionPlaneCalls)
  then show ?thesis by (simp add: allSectionPlaneCalls_def)
qed

lemma programBinds_bucketCalls: "programBinds (bucketCalls this p st) = 0"
  by (simp add: bucketCalls_def programBinds_append)

subsection \<open>The shape of a call that runs to its end\<close>

lemma allocate_program: "program (allocate env scene this) \<noteq> None"
  by (simp add: allocate_def Let_def split: option.splits)

lemma allSectionPlaneCalls_no_planes: "allSectionPlaneCalls env us flags b orig [] = []"
  by (simp add: allSectionPlaneCalls_def)

lemma uniformCalls_lastProgramId:
  "uniformCalls env scene t (fc\<lparr>lastProgramId := x\<rparr>) m V E rp =
   uniformCalls env scene t fc m V E rp"
  by (simp add: uniformCalls_def)

lemma drawLayer_Completed:
  assumes compl: "outcome (drawLayer env scene this fc layer rp) = Completed"
      and t: "t = (if program this = None then allocate env scene this else this)"
  shows "\<exists>p orig.
    program t = Some p \<and>
    origin (state layer) = Some orig \<and>
    renderer_after (drawLayer env scene this fc layer rp) = t \<and>
    frameCtx_after (drawLayer env scene this fc layer rp) =
       fc\<lparr>lastProgramId := Some (program_id p), drawElements := drawElements fc + 1\<rparr> \<and>
    calls (drawLayer env scene this fc layer rp) =
       (if lastProgramId fc \<noteq> Some (program_id p) then bindProgram env scene t p else []) @
       commonTextureCalls t p @
       uniformCalls env scene t fc (model layer)
         (fst (rtcViewAndEye env (camera scene) (model layer) orig))
         (snd (rtcViewAndEye env (camera scene) (model layer) orig)) rp @
       (case uSectionPlanes t of
          Some us \<Rightarrow> allSectionPlaneCalls env us (sectionPlanesActivePerLayer (model layer))
                      (layerIndex layer * length (sectionPlanes scene)) (Some orig)
                      (sectionPlanes scene)
        | None \<Rightarrow> []) @
       bucketCalls t p (state layer) \<and>
    (sectionPlanes scene \<noteq> [] \<longrightarrow> uSectionPlanes t \<noteq> None)"
proof -
  obtain p where p: "program t = Some p"
    using t allocate_program [of env scene this] by (cases "program this") auto
  have guard: "\<not> (program this = None \<and> errors t \<noteq> None)"
  proof
    assume "program this = None \<and> errors t \<noteq> None"
    then have "program this = None" and "errors (allocate env scene this) \<noteq> None"
      using t by auto
    then have "outcome (drawLayer env scene this fc layer rp) = AbortedOnErrors"
      by (simp add: drawLayer_def Let_def)
    with compl show False by simp
  qed
  obtain orig where orig: "origin (state layer) = Some orig"
  proof (cases "origin (state layer)")
    case None
    then have "outcome (drawLayer env scene this fc layer rp) = ThrewTypeError"
      using guard p unfolding drawLayer_def Let_def t [symmetric] by auto
    with compl show ?thesis by simp
  next
    case (Some a)
    then show ?thesis using that by simp
  qed
  show ?thesis
  proof (cases "sectionPlanes scene = []")
    case True
    then show ?thesis
      using guard p orig unfolding drawLayer_def Let_def t [symmetric]
      by (cases "uSectionPlanes t")
         (auto simp add: case_prod_beta allSectionPlaneCalls_no_planes uniformCalls_lastProgramId)
  next
    case False
    show ?thesis
    proof (cases "uSectionPlanes t")
      case None
      then have "outcome (drawLayer env scene this fc layer rp) = ThrewTypeError"
        using guard p orig False unfolding drawLayer_def Let_def t [symmetric]
        by (auto simp add: case_prod_beta)
      with compl show ?thesis by simp
    next
      case (Some us)
      then show ?thesis
        using guard p orig False unfolding drawLayer_def Let_def t [symmetric]
        by (auto simp add: case_prod_beta uniformCalls_lastProgramId)
    qed
  qed
qed

text \<open>A renderer that holds a program object never reaches the error guard, whatever
  its \<open>errors\<close> field says, and keeps the program it has.\<close>

lemma guard_passes_with_program:
  assumes "program this \<noteq> None"
  shows "outcome (drawLayer env scene this fc layer rp) \<noteq> AbortedOnErrors \<and>
         renderer_after (drawLayer env scene this fc layer rp) = this"
  using assms
  by (auto simp add: drawLayer_def Let_def case_prod_beta split: option.splits)

text \<open>When a call runs to its end: the renderer holds a program, the layer has an
  origin, and the uniforms of the section planes were allocated if there are planes.\<close>

lemma drawLayer_completes:
  assumes "program this = Some p" and "origin (state layer) = Some orig"
      and "sectionPlanes scene = [] \<or> uSectionPlanes this \<noteq> None"
  shows "outcome (drawLayer env scene this fc layer rp) = Completed"
  using assms
  by (auto simp add: drawLayer_def Let_def case_prod_beta split: option.splits)

subsection \<open>Example runs\<close>

lemma new_renderer_ok:
  "program (new_renderer env_ok scene) = Some program_ok"
  "errors (new_renderer env_ok scene) = None"
  "uSectionPlanes (new_renderer env_ok scene) \<noteq> None"
  by (simp_all add: new_renderer_def allocate_def unallocated_def env_ok_def program_ok_def Let_def)

lemma new_renderer_failing:
  "program (new_renderer env_failing scene) = Some program_failed"
  "errors (new_renderer env_failing scene) = Some [''Vertex shader failed to compile'']"
  "uSectionPlanes (new_renderer env_failing scene) = None"
  by (simp_all add: new_renderer_def allocate_def unallocated_def env_failing_def env_ok_def
      program_failed_def Let_def)

lemma example_origins:
  "origin (state layer_example) = Some (0, 0, 0)"
  "origin (state layer_empty) = Some (0, 0, 0)"
  "origin (state layer_rtc) = Some (1, 0, 0)"
  by (simp_all add: layer_example_def layer_empty_def layer_rtc_def)

lemma example_completed:
  "outcome (drawLayer env_ok scene (new_renderer env_ok scene) fc layer_example rp) = Completed"
  "outcome (drawLayer env_ok scene (new_renderer env_ok scene) fc layer_empty rp) = Completed"
  "outcome (drawLayer env_ok scene (new_renderer env_ok scene) fc layer_rtc rp) = Completed"
  by (rule drawLayer_completes [OF new_renderer_ok(1) _ disjI2 [OF new_renderer_ok(3)]],
      rule example_origins)+

subsection \<open>Draw invocations and the draw counter\<close>

lemma completed_drawCounts:
  assumes "outcome (drawLayer env scene this fc layer rp) = Completed"
  shows "drawCounts (calls (drawLayer env scene this fc layer rp)) =
         filter (\<lambda>n. 0 < n)
           [numIndices8Bits (state layer), numIndices16Bits (state layer),
            numIndices32Bits (state layer)]"
proof -
  from drawLayer_Completed [OF assms refl] obtain p orig where
    "calls (drawLayer env scene this fc layer rp) =
       (if lastProgramId fc \<noteq> Some (program_id p)
        then bindProgram env scene (if program this = None then allocate env scene this else this) p
        else []) @
       commonTextureCalls (if program this = None then allocate env scene this else this) p @
       uniformCalls env scene (if program this = None then allocate env scene this else this)
         fc (model layer)
         (fst (rtcViewAndEye env (camera scene) (model layer) orig))
         (snd (rtcViewAndEye env (camera scene) (model layer) orig)) rp @
       (case uSectionPlanes (if program this = None then allocate env scene this else this) of
          Some us \<Rightarrow> allSectionPlaneCalls env us (sectionPlanesActivePerLayer (model layer))
                      (layerIndex layer * length (sectionPlanes scene)) (Some orig)
                      (sectionPlanes scene)
        | None \<Rightarrow> []) @
       bucketCalls (if program this = None then allocate env scene this else this) p (state layer)"
    by auto
  then show ?thesis
    by (simp add: drawCounts_append drawCounts_bindProgram drawCounts_commonTextureCalls
        drawCounts_uniformCalls drawCounts_allSectionPlaneCalls drawCounts_bucketCalls
        split: option.split)
qed

lemma completed_drawElements:
  assumes "outcome (drawLayer env scene this fc layer rp) = Completed"
  shows "drawElements (frameCtx_after (drawLayer env scene this fc layer rp)) =
           drawElements fc + 1"
  using drawLayer_Completed [OF assms refl] by (elim exE conjE) simp

text \<open>
  Claim C8. A call of \<open>drawLayer\<close> that runs to its end issues its draw invocations in
  the order 8-bit, 16-bit, 32-bit, one for each bucket whose index count is positive, with
  exactly that count, and none for the other buckets.
\<close>

theorem C8_one_draw_per_bucket:
  assumes "outcome (drawLayer env scene this fc layer rp) = Completed"
  shows "drawCounts (calls (drawLayer env scene this fc layer rp)) =
         filter (\<lambda>n. 0 < n)
           [numIndices8Bits (state layer), numIndices16Bits (state layer),
            numIndices32Bits (state layer)]"
  using assms by (rule completed_drawCounts)

text \<open>The layer of the claim, with 300, 0 and 90 indices: two draws, of 300 and of 90.\<close>

theorem C8_witness:
  "outcome (drawLayer env_ok scene_plain (new_renderer env_ok scene_plain) frameCtx_fresh
      layer_example 0) = Completed \<and>
   numIndices8Bits (state layer_example) = 300 \<and>
   numIndices16Bits (state layer_example) = 0 \<and>
   numIndices32Bits (state layer_example) = 90 \<and>
   drawCounts (calls (drawLayer env_ok scene_plain (new_renderer env_ok scene_plain)
      frameCtx_fresh layer_example 0)) = [300, 90]"
  using C8_one_draw_per_bucket [OF example_completed(1), of scene_plain frameCtx_fresh 0]
    example_completed(1) [of scene_plain frameCtx_fresh 0]
  by (simp add: layer_example_def)

text \<open>
  Claim C10. A call of \<open>drawLayer\<close> that runs to its end, so neither returns at the error
  guard nor raises, adds exactly one to \<open>frameCtx.drawElements\<close>; this holds also when no
  bucket has indices and no draw is issued.
\<close>

theorem C10_one_increment_per_call:
  assumes "outcome (drawLayer env scene this fc layer rp) = Completed"
  shows "drawElements (frameCtx_after (drawLayer env scene this fc layer rp)) =
           drawElements fc + 1 \<and>
         (numIndices8Bits (state layer) \<le> 0 \<and> numIndices16Bits (state layer) \<le> 0 \<and>
          numIndices32Bits (state layer) \<le> 0 \<longrightarrow>
          drawCounts (calls (drawLayer env scene this fc layer rp)) = [])"
  using completed_drawElements [OF assms] completed_drawCounts [OF assms] by simp

text \<open>A layer without indices: the counter goes from 7 to 8 and nothing is drawn.\<close>

theorem C10_witness:
  "outcome (drawLayer env_ok scene_plain (new_renderer env_ok scene_plain) frameCtx_bound
      layer_empty 0) = Completed \<and>
   drawElements frameCtx_bound = 7 \<and>
   drawElements (frameCtx_after (drawLayer env_ok scene_plain (new_renderer env_ok scene_plain)
      frameCtx_bound layer_empty 0)) = 8 \<and>
   drawCounts (calls (drawLayer env_ok scene_plain (new_renderer env_ok scene_plain)
      frameCtx_bound layer_empty 0)) = []"
  using C10_one_increment_per_call [OF example_completed(2), of scene_plain frameCtx_bound 0]
    example_completed(2) [of scene_plain frameCtx_bound 0]
  by (simp add: layer_empty_def layer_example_def frameCtx_bound_def)

subsection \<open>Program binds\<close>

lemma completed_binds:
  assumes "outcome (drawLayer env scene this fc layer rp) = Completed"
  shows "\<exists>p. program (renderer_after (drawLayer env scene this fc layer rp)) = Some p \<and>
             lastProgramId (frameCtx_after (drawLayer env scene this fc layer rp)) =
               Some (program_id p) \<and>
             programBinds (calls (drawLayer env scene this fc layer rp)) =
               (if lastProgramId fc = Some (program_id p) then 0 else 1)"
  using drawLayer_Completed [OF assms refl]
  apply (elim exE conjE)
  subgoal for p orig
    apply (rule exI [of _ p])
    apply (simp add: programBinds_append programBinds_bindProgram
        programBinds_commonTextureCalls programBinds_uniformCalls
        programBinds_allSectionPlaneCalls programBinds_bucketCalls split: option.split)
    done
  done

text \<open>
  Claim C9, as amended. A completed call binds the program exactly when
  \<open>frameCtx.lastProgramId\<close> differs from the id of the renderer's program, and leaves that
  id in \<open>lastProgramId\<close>. Of two consecutive completed calls on one renderer with one
  frame context the second never binds, so together they bind at most once: once when the
  frame context held another id before the first call, and not at all when it already
  held this program's id.
\<close>

theorem C9_at_most_one_bind:
  assumes twice: "drawLayer_twice env scene this fc layerA layerB rp = (r1, r2)"
      and c1: "outcome r1 = Completed" and c2: "outcome r2 = Completed"
  shows "programBinds (calls r1) =
           (if lastProgramId fc = map_option program_id (program (renderer_after r1))
            then 0 else 1) \<and>
         lastProgramId (frameCtx_after r1) = map_option program_id (program (renderer_after r1)) \<and>
         programBinds (calls r2) = 0 \<and>
         programBinds (calls r1 @ calls r2) \<le> 1"
proof -
  have r1: "r1 = drawLayer env scene this fc layerA rp"
    and r2: "r2 = drawLayer env scene (renderer_after r1) (frameCtx_after r1) layerB rp"
    using twice by (auto simp add: drawLayer_twice_def Let_def)
  from completed_binds [of env scene this fc layerA rp] c1 r1
  obtain p where p: "program (renderer_after r1) = Some p"
    and last: "lastProgramId (frameCtx_after r1) = Some (program_id p)"
    and b1: "programBinds (calls r1) = (if lastProgramId fc = Some (program_id p) then 0 else 1)"
    by auto
  have same: "renderer_after r2 = renderer_after r1"
    using guard_passes_with_program [of "renderer_after r1" env scene "frameCtx_after r1" layerB rp]
      p r2 by simp
  from completed_binds [of env scene "renderer_after r1" "frameCtx_after r1" layerB rp] c2 r2
  obtain q where "program (renderer_after r2) = Some q"
    and "programBinds (calls r2) =
           (if lastProgramId (frameCtx_after r1) = Some (program_id q) then 0 else 1)"
    by auto
  with same p last have b2: "programBinds (calls r2) = 0" by simp
  from p last b1 b2 show ?thesis by (simp add: programBinds_append)
qed

lemma twice_example:
  "drawLayer_twice env_ok scene_plain (new_renderer env_ok scene_plain) fc layer_example
     layer_empty 0 =
   (drawLayer env_ok scene_plain (new_renderer env_ok scene_plain) fc layer_example 0,
    drawLayer env_ok scene_plain (new_renderer env_ok scene_plain)
      (frameCtx_after (drawLayer env_ok scene_plain (new_renderer env_ok scene_plain) fc
         layer_example 0)) layer_empty 0)"
  using guard_passes_with_program [of "new_renderer env_ok scene_plain" env_ok scene_plain fc
      layer_example 0]
  by (simp add: drawLayer_twice_def Let_def new_renderer_ok)

text \<open>With a fresh frame context the first call binds and the second does not.\<close>

theorem C9_witness:
  "outcome (fst (drawLayer_twice env_ok scene_plain (new_renderer env_ok scene_plain)
      frameCtx_fresh layer_example layer_empty 0)) = Completed \<and>
   outcome (snd (drawLayer_twice env_ok scene_plain (new_renderer env_ok scene_plain)
      frameCtx_fresh layer_example layer_empty 0)) = Completed \<and>
   programBinds (calls (fst (drawLayer_twice env_ok scene_plain
      (new_renderer env_ok scene_plain) frameCtx_fresh layer_example layer_empty 0))) = 1 \<and>
   programBinds (calls (snd (drawLayer_twice env_ok scene_plain
      (new_renderer env_ok scene_plain) frameCtx_fresh layer_example layer_empty 0))) = 0"
proof -
  let ?r1 = "drawLayer env_ok scene_plain (new_renderer env_ok scene_plain) frameCtx_fresh
               layer_example 0"
  let ?r2 = "drawLayer env_ok scene_plain (new_renderer env_ok scene_plain)
               (frameCtx_after ?r1) layer_empty 0"
  have c1: "outcome ?r1 = Completed" by (rule example_completed(1))
  have c2: "outcome ?r2 = Completed" by (rule example_completed(2))
  have same: "renderer_after ?r1 = new_renderer env_ok scene_plain"
    using guard_passes_with_program [of "new_renderer env_ok scene_plain"]
    by (simp add: new_renderer_ok)
  have "lastProgramId frameCtx_fresh \<noteq>
        map_option program_id (program (renderer_after ?r1))"
    unfolding same by (simp add: new_renderer_ok frameCtx_fresh_def)
  with C9_at_most_one_bind [OF twice_example c1 c2] c1 c2 show ?thesis
    by (simp add: twice_example)
qed

text \<open>
  Claim C9 as stated fails: when the frame context already holds the id of the
  renderer's program, as it does after an earlier layer drawn with the same renderer, two
  consecutive calls issue no program bind at all, not exactly one.
\<close>

theorem C9_counterexample:
  "outcome (fst (drawLayer_twice env_ok scene_plain (new_renderer env_ok scene_plain)
      frameCtx_bound layer_example layer_empty 0)) = Completed \<and>
   outcome (snd (drawLayer_twice env_ok scene_plain (new_renderer env_ok scene_plain)
      frameCtx_bound layer_example layer_empty 0)) = Completed \<and>
   programBinds
     (calls (fst (drawLayer_twice env_ok scene_plain (new_renderer env_ok scene_plain)
        frameCtx_bound layer_example layer_empty 0)) @
      calls (snd (drawLayer_twice env_ok scene_plain (new_renderer env_ok scene_plain)
        frameCtx_bound layer_example layer_empty 0))) = 0"
proof -
  let ?r1 = "drawLayer env_ok scene_plain (new_renderer env_ok scene_plain) frameCtx_bound
               layer_example 0"
  let ?r2 = "drawLayer env_ok scene_plain (new_renderer env_ok scene_plain)
               (frameCtx_after ?r1) layer_empty 0"
  have c1: "outcome ?r1 = Completed" by (rule example_completed(1))
  have c2: "outcome ?r2 = Completed" by (rule example_completed(2))
  have same: "renderer_after ?r1 = new_renderer env_ok scene_plain"
    using guard_passes_with_program [of "new_renderer env_ok scene_plain"]
    by (simp add: new_renderer_ok)
  from completed_binds [OF c1] obtain p where p: "program (renderer_after ?r1) = Some p"
    and last: "lastProgramId (frameCtx_after ?r1) = Some (program_id p)"
    and b: "programBinds (calls ?r1) =
              (if lastProgramId frameCtx_bound = Some (program_id p) then 0 else 1)"
    by blast
  have p_ok: "p = program_ok"
    using p unfolding same by (simp add: new_renderer_ok)
  have b1: "programBinds (calls ?r1) = 0"
    using b by (simp add: p_ok program_ok_def frameCtx_bound_def)
  from completed_binds [OF c2] obtain q where q: "program (renderer_after ?r2) = Some q"
    and b': "programBinds (calls ?r2) =
              (if lastProgramId (frameCtx_after ?r1) = Some (program_id q) then 0 else 1)"
    by blast
  have "renderer_after ?r2 = new_renderer env_ok scene_plain"
    using guard_passes_with_program [of "new_renderer env_ok scene_plain"]
    by (simp add: new_renderer_ok)
  with q have "q = program_ok" by (simp add: new_renderer_ok)
  with b' last p_ok have b2: "programBinds (calls ?r2) = 0" by simp
  from c1 c2 b1 b2 show ?thesis
    by (simp add: twice_example programBinds_append)
qed

subsection \<open>A renderer whose program failed to compile\<close>

text \<open>Every call leaves a program object in the renderer, so no later call on that
  renderer returns at the error guard.\<close>

lemma program_after_drawLayer:
  "program (renderer_after (drawLayer env scene this fc layer rp)) \<noteq> None"
proof (cases "program this")
  case None
  then show ?thesis
    using allocate_program [of env scene this]
    by (auto simp add: drawLayer_def Let_def case_prod_beta split: option.splits)
next
  case (Some p)
  then show ?thesis
    using guard_passes_with_program [of this env scene fc layer rp] by simp
qed

lemma no_abort_after_first_call:
  "outcome (drawLayer env' scene' (renderer_after (drawLayer env scene this fc layer rp))
      fc' layer' rp') \<noteq> AbortedOnErrors"
  using guard_passes_with_program [OF program_after_drawLayer] by blast

text \<open>A renderer that lost its program with the context and fails to compile it
  again: the call that runs \<open>_allocate\<close> returns at the guard, the next one draws.\<close>

lemma lazy_failure_example:
  "outcome (fst (drawLayer_twice env_failing scene_plain
      (webglContextRestored (new_renderer env_ok scene_plain)) frameCtx_fresh layer_example
      layer_example 0)) = AbortedOnErrors"
  "calls (fst (drawLayer_twice env_failing scene_plain
      (webglContextRestored (new_renderer env_ok scene_plain)) frameCtx_fresh layer_example
      layer_example 0)) = []"
  "outcome (snd (drawLayer_twice env_failing scene_plain
      (webglContextRestored (new_renderer env_ok scene_plain)) frameCtx_fresh layer_example
      layer_example 0)) = Completed"
  "drawCounts (calls (snd (drawLayer_twice env_failing scene_plain
      (webglContextRestored (new_renderer env_ok scene_plain)) frameCtx_fresh layer_example
      layer_example 0))) = [300, 90]"
  by code_simp+

text \<open>
  Claim C2 at two failing inputs. The renderer \<open>new_renderer env_failing scene_plain\<close>
  was built while compilation failed, so it has a non-empty error set, and it holds the
  failed program object. \<open>drawLayer\<close> tests \<open>this.errors\<close> only inside
  \<open>if (!this._program)\<close>, so the next call is not a no-op: it binds the program, uploads
  the uniforms and draws both buckets of the layer. Likewise for a renderer that lost its
  program with the context: the call that fails to compile it again returns at the guard,
  and the call after that draws.
\<close>

theorem C2_failed_program_still_draws:
  "errors (new_renderer env_failing scene_plain) \<noteq> None \<and>
   outcome (drawLayer env_failing scene_plain (new_renderer env_failing scene_plain)
      frameCtx_fresh layer_example 0) = Completed \<and>
   programBinds (calls (drawLayer env_failing scene_plain (new_renderer env_failing scene_plain)
      frameCtx_fresh layer_example 0)) = 1 \<and>
   drawCounts (calls (drawLayer env_failing scene_plain (new_renderer env_failing scene_plain)
      frameCtx_fresh layer_example 0)) = [300, 90] \<and>
   outcome (fst (drawLayer_twice env_failing scene_plain
      (webglContextRestored (new_renderer env_ok scene_plain)) frameCtx_fresh layer_example
      layer_example 0)) = AbortedOnErrors \<and>
   outcome (snd (drawLayer_twice env_failing scene_plain
      (webglContextRestored (new_renderer env_ok scene_plain)) frameCtx_fresh layer_example
      layer_example 0)) = Completed \<and>
   drawCounts (calls (snd (drawLayer_twice env_failing scene_plain
      (webglContextRestored (new_renderer env_ok scene_plain)) frameCtx_fresh layer_example
      layer_example 0))) = [300, 90]"
proof -
  have c: "outcome (drawLayer env_failing scene_plain (new_renderer env_failing scene_plain)
      frameCtx_fresh layer_example 0) = Completed"
    by (rule drawLayer_completes [OF new_renderer_failing(1) example_origins(1)])
       (simp add: scene_plain_def)
  have same: "renderer_after (drawLayer env_failing scene_plain
      (new_renderer env_failing scene_plain) frameCtx_fresh layer_example 0) =
      new_renderer env_failing scene_plain"
    using guard_passes_with_program [of "new_renderer env_failing scene_plain"]
    by (simp add: new_renderer_failing)
  from completed_binds [OF c] have "programBinds (calls (drawLayer env_failing scene_plain
      (new_renderer env_failing scene_plain) frameCtx_fresh layer_example 0)) = 1"
    by (auto simp add: same new_renderer_failing frameCtx_fresh_def)
  with c completed_drawCounts [OF c] lazy_failure_example show ?thesis
    by (simp add: new_renderer_failing layer_example_def)
qed

subsection \<open>The calls after the common textures\<close>



subsection \<open>The uniforms of the section planes\<close>




lemma length_uniformCalls:
  "length (uniformCalls env scene t fc m V E rp) =
     (if logarithmicDepthBufferEnabled scene then 6 else 5)"
  by (simp add: uniformCalls_def)









section \<open>Properties of the generated vertex stage\<close>

subsection \<open>The render-pass filter\<close>

lemma sint_small:
  fixes f :: i32
  assumes "uint f < 2 ^ 31"
  shows "sint f = uint f"
proof -
  have "signed_take_bit 31 (uint f) = uint f"
    using assms by (intro signed_take_bit_int_eq_self) (simp_all add: order_trans [of _ 0])
  then show ?thesis by (simp add: sint_uint)
qed

lemma flags_nonneg_eq:
  fixes f r :: i32
  assumes "uint f < 2 ^ 31"
  shows "f = r \<longleftrightarrow> uint f = sint r"
proof
  assume "f = r"
  then show "uint f = sint r" using sint_small [OF assms] by simp
next
  assume "uint f = sint r"
  then have "word_of_int (uint f) = (word_of_int (sint r) :: i32)" by simp
  then show "f = r" by simp
qed

text \<open>The lines of the pass filter and of the flip are part of the vertex source for
  every scene.\<close>

lemma filter_and_flip_lines_emitted:
  "''if (int(flags.x) != renderPass) {'' \<in> set (buildVertexShader scene)"
  "''   gl_Position = vec4(3.0, 3.0, 3.0, 1.0);'' \<in> set (buildVertexShader scene)"
  "''if (solid != 1u) {'' \<in> set (buildVertexShader scene)"
  "''position = positions[2 - (gl_VertexID % 3)];'' \<in> set (buildVertexShader scene)"
  "''viewNormal = -viewNormal;'' \<in> set (buildVertexShader scene)"
  by (simp_all add: buildVertexShader_def Let_def)

lemma same_triangle:
  assumes "i div 3 = j div 3"
  shows "objectIndexCoords u i = objectIndexCoords u j"
    and "objectTexel u i k = objectTexel u j k"
    and "positions u i = positions u j"
    and "normal g u i = normal g u j"
    and "solid u i = solid u j"
  using assms
  by (simp_all add: objectIndexCoords_def polygonIndex_def objectTexel_def positions_def
      normal_def solid_def)

lemma render_pass_filter:
  "(flags_x u vid = renderPass_u u \<longrightarrow> (\<forall>v. vertexMain g scene u vid \<noteq> CulledByRenderPass v)) \<and>
   (flags_x u vid \<noteq> renderPass_u u \<longrightarrow>
      vertexMain g scene u vid = CulledByRenderPass (3, 3, 3, 1) \<and>
      \<not> insideClipVolume (3, 3, 3, 1))"
  by (simp add: vertexMain_def insideClipVolume_def Let_def case_prod_beta)

text \<open>
  Claim C5. For every object and every value of the \<open>renderPass\<close> uniform: when the
  object's \<open>flags.x\<close> equals \<open>renderPass\<close> the vertex is not culled by the pass filter; when
  it differs, \<open>main\<close> sets \<open>gl_Position\<close> to (3, 3, 3, 1), which lies outside the canonical
  clip volume, and returns. The comparison is \<open>int(flags.x) != renderPass\<close>, on the 32 bits
  of the two values; for a \<open>flags.x\<close> below \<open>2^31\<close>, as every 8-bit texel is, it is the
  comparison of the unsigned \<open>flags.x\<close> with the signed \<open>renderPass\<close>.
\<close>

theorem C5_render_pass_filter:
  "(flags_x u gl_VertexID = renderPass_u u \<longrightarrow>
      (\<forall>v. vertexMain g scene u gl_VertexID \<noteq> CulledByRenderPass v)) \<and>
   (flags_x u gl_VertexID \<noteq> renderPass_u u \<longrightarrow>
      vertexMain g scene u gl_VertexID = CulledByRenderPass (3, 3, 3, 1) \<and>
      \<not> insideClipVolume (3, 3, 3, 1)) \<and>
   (uint (flags_x u gl_VertexID) < 2 ^ 31 \<longrightarrow>
      (flags_x u gl_VertexID = renderPass_u u \<longleftrightarrow>
       uint (flags_x u gl_VertexID) = sint (renderPass_u u)))"
  using render_pass_filter [of u gl_VertexID g scene] flags_nonneg_eq by blast

lemma flags_x_example: "flags_x uniforms_example 4 = 1"
  by (simp add: flags_x_def objectTexel_def objectIndexCoords_def polygonIndex_def
      uniforms_example_def glsl_mod_def glsl_div_def Let_def signed_divide_int_def
      signed_modulo_int_def)

lemma flags_x_example_other:
  "flags_x (uniforms_example\<lparr>renderPass_u := 2\<rparr>) 4 = 1"
  by (simp add: flags_x_def objectTexel_def objectIndexCoords_def polygonIndex_def
      uniforms_example_def glsl_mod_def glsl_div_def Let_def signed_divide_int_def
      signed_modulo_int_def)

text \<open>An object with pass flag 1, drawn with \<open>renderPass\<close> 1 and with \<open>renderPass\<close> 2.\<close>

theorem C5_witness:
  "flags_x uniforms_example 4 = renderPass_u uniforms_example \<and>
   vertexMain glsl_example scene_plain uniforms_example 4 \<noteq> CulledByRenderPass (3, 3, 3, 1) \<and>
   flags_x (uniforms_example\<lparr>renderPass_u := 2\<rparr>) 4 \<noteq>
     renderPass_u (uniforms_example\<lparr>renderPass_u := 2\<rparr>) \<and>
   vertexMain glsl_example scene_plain (uniforms_example\<lparr>renderPass_u := 2\<rparr>) 4 =
     CulledByRenderPass (3, 3, 3, 1) \<and>
   uint (flags_x uniforms_example 4) < 2 ^ 31 \<and>
   uint (flags_x uniforms_example 4) = sint (renderPass_u uniforms_example)"
  using C5_render_pass_filter [of uniforms_example 4 glsl_example scene_plain]
    C5_render_pass_filter [of "uniforms_example\<lparr>renderPass_u := 2\<rparr>" 4 glsl_example scene_plain]
  by (simp add: flags_x_example flags_x_example_other) (simp add: uniforms_example_def)

subsection \<open>The winding of non-solid geometry\<close>

lemma drawn_locals:
  assumes "vertexMain g scene u vid = Drawn out"
  shows "(position_local out, viewNormal_local out) =
           flipWinding g u vid (positions u vid ! (vid mod 3), viewNormal g u vid)"
    and "gl_Position out =
           mat4_vec (projMatrix_u u) (mat4_vec (viewMatrix_u u) (mat4_vec (sceneModelMatrix_u u)
             (mat4_vec (objectDecodeAndInstanceMatrix u vid) (vec4_of (position_local out) 1))))"
  using assms
  by (auto simp add: vertexMain_def Let_def case_prod_beta split: if_splits)

lemma flipWinding_eq:
  "flipWinding g u vid (p, n) =
     (if solid u vid \<noteq> 1 \<and>
         (if isPerspectiveMatrix (projMatrix_u u)
          then vec3_dot (vec3_sub p (uCameraEyeRtcInQuantizedSpace g u vid)) (normal g u vid) < 0
          else (case n of (x, y, z) \<Rightarrow> z) < 0)
      then (positions u vid ! (2 - vid mod 3), vec3_neg n)
      else (p, n))"
  by (simp add: flipWinding_def)

text \<open>
  Claim C7. For a vertex that \<open>main\<close> does not cull: the face normal is
  \<open>normalize(cross(positions[2] - positions[0], positions[1] - positions[0]))\<close>. For
  geometry whose solid flag is not 1 the vertex takes the position \<open>2 - gl_VertexID % 3\<close>
  of its triangle instead of \<open>gl_VertexID % 3\<close>, and \<open>viewNormal\<close> is negated, exactly
  when, under a perspective projection, the dot product of its position minus the camera
  eye in quantized space with the face normal is negative, and under any other projection
  the z component of \<open>viewNormal\<close> is negative. Solid geometry is left as it is.
  \<open>gl_Position\<close> is computed from the position so chosen, after the flip. A flipped
  triangle reads the positions 2, 1, 0, which is the order 0, 2, 1 started one vertex
  later, so its winding is reversed.
\<close>

theorem C7_backface_flip:
  assumes "vertexMain g scene u gl_VertexID = Drawn out"
  shows "normal g u gl_VertexID =
           normalize_vec3 g
             (vec3_cross (vec3_sub (positions u gl_VertexID ! 2) (positions u gl_VertexID ! 0))
                         (vec3_sub (positions u gl_VertexID ! 1) (positions u gl_VertexID ! 0))) \<and>
         (position_local out, viewNormal_local out) =
           (if solid u gl_VertexID \<noteq> 1 \<and>
               (if isPerspectiveMatrix (projMatrix_u u)
                then vec3_dot
                       (vec3_sub (positions u gl_VertexID ! (gl_VertexID mod 3))
                          (uCameraEyeRtcInQuantizedSpace g u gl_VertexID))
                       (normal g u gl_VertexID) < 0
                else (case viewNormal g u gl_VertexID of (x, y, z) \<Rightarrow> z) < 0)
            then (positions u gl_VertexID ! (2 - gl_VertexID mod 3),
                  vec3_neg (viewNormal g u gl_VertexID))
            else (positions u gl_VertexID ! (gl_VertexID mod 3), viewNormal g u gl_VertexID)) \<and>
         gl_Position out =
           mat4_vec (projMatrix_u u) (mat4_vec (viewMatrix_u u) (mat4_vec (sceneModelMatrix_u u)
             (mat4_vec (objectDecodeAndInstanceMatrix u gl_VertexID)
                (vec4_of (position_local out) 1)))) \<and>
         map (\<lambda>j. positions u gl_VertexID ! (2 - j mod 3)) [0, 1, 2] =
           rotate1 [positions u gl_VertexID ! 0, positions u gl_VertexID ! 2,
                    positions u gl_VertexID ! 1]"
  using drawn_locals [OF assms]
  by (simp add: flipWinding_eq normal_def Let_def)

lemma vertex_example_drawn:
  "vertexMain glsl_example scene_plain uniforms_example 3 =
     Drawn \<lparr>gl_Position = (1, 0, 0, 1), vHighPrecisionZW = (0, 1), vFragDepth = None,
       isPerspective = None, vWorldPosition = None, vFlags2 = None,
       position_local = (1, 0, 0), viewNormal_local = (0, 0, 1)\<rparr>"
  by code_simp

lemma vertex_example_values:
  "solid uniforms_example 3 = 0"
  "positions uniforms_example 3 = [(0, 0, 0), (0, 1, 0), (1, 0, 0)]"
  "viewNormal glsl_example uniforms_example 3 = (0, 0, -1)"
  "isPerspectiveMatrix (projMatrix_u uniforms_example) = False"
  by code_simp+

text \<open>A non-solid triangle under an orthographic projection whose view normal points
  away: vertex 0 of the triangle takes the position of vertex 2.\<close>

theorem C7_witness:
  "vertexMain glsl_example scene_plain uniforms_example 3 =
     Drawn \<lparr>gl_Position = (1, 0, 0, 1), vHighPrecisionZW = (0, 1), vFragDepth = None,
       isPerspective = None, vWorldPosition = None, vFlags2 = None,
       position_local = (1, 0, 0), viewNormal_local = (0, 0, 1)\<rparr> \<and>
   solid uniforms_example 3 \<noteq> 1 \<and>
   \<not> isPerspectiveMatrix (projMatrix_u uniforms_example) \<and>
   viewNormal glsl_example uniforms_example 3 = (0, 0, -1) \<and>
   positions uniforms_example 3 ! (2 - 3 mod 3) = (1, 0, 0) \<and>
   vec3_neg (viewNormal glsl_example uniforms_example 3) = (0, 0, 1)"
  using C7_backface_flip [OF vertex_example_drawn] vertex_example_drawn
  by (simp add: vertex_example_values vec3_neg_def)

end
